theory Spec2Isabelle
  imports Complex_Main
begin

section \<open>Python floats with a not-a-number value\<close>

text \<open>
  The strategies compute on Python floats read from pandas dataframes. A dataframe cell
  may hold not-a-number (indicator warm-up, coerced non-numeric data), and Python's
  comparisons and its \<^verbatim>\<open>max\<close>/\<^verbatim>\<open>min\<close> treat such a value in a way that decides which
  branch the code takes. A float is therefore modelled as either \<open>NaN\<close> or a finite value
  \<open>Fin x\<close> with \<open>x\<close> a real number. Rounding and the infinities are not modelled: finite
  arithmetic is exact.
\<close>

datatype pyfloat = NaN | Fin real

text \<open>
  Arithmetic propagates \<open>NaN\<close>. Every division in the modelled code has a divisor that
  the code has tested positive or has passed through \<^verbatim>\<open>max(., 1e-9)\<close>, so the zero-divisor
  case (where Python raises) is never reached; it is mapped to \<open>NaN\<close> so that it cannot
  silently produce a finite value.
\<close>

instantiation pyfloat :: "{plus, minus, times, uminus, inverse, ord}"
begin

fun plus_pyfloat :: "pyfloat \<Rightarrow> pyfloat \<Rightarrow> pyfloat" where
  "plus_pyfloat (Fin a) (Fin b) = Fin (a + b)"
| "plus_pyfloat _ _ = NaN"

fun minus_pyfloat :: "pyfloat \<Rightarrow> pyfloat \<Rightarrow> pyfloat" where
  "minus_pyfloat (Fin a) (Fin b) = Fin (a - b)"
| "minus_pyfloat _ _ = NaN"

fun times_pyfloat :: "pyfloat \<Rightarrow> pyfloat \<Rightarrow> pyfloat" where
  "times_pyfloat (Fin a) (Fin b) = Fin (a * b)"
| "times_pyfloat _ _ = NaN"

fun uminus_pyfloat :: "pyfloat \<Rightarrow> pyfloat" where
  "uminus_pyfloat (Fin a) = Fin (- a)"
| "uminus_pyfloat NaN = NaN"

fun divide_pyfloat :: "pyfloat \<Rightarrow> pyfloat \<Rightarrow> pyfloat" where
  "divide_pyfloat (Fin a) (Fin b) = (if b = 0 then NaN else Fin (a / b))"
| "divide_pyfloat _ _ = NaN"

fun inverse_pyfloat :: "pyfloat \<Rightarrow> pyfloat" where
  "inverse_pyfloat (Fin a) = (if a = 0 then NaN else Fin (1 / a))"
| "inverse_pyfloat NaN = NaN"

text \<open>Every ordering comparison with \<open>NaN\<close> is false, as in Python.\<close>

fun less_eq_pyfloat :: "pyfloat \<Rightarrow> pyfloat \<Rightarrow> bool" where
  "less_eq_pyfloat (Fin a) (Fin b) = (a \<le> b)"
| "less_eq_pyfloat _ _ = False"

fun less_pyfloat :: "pyfloat \<Rightarrow> pyfloat \<Rightarrow> bool" where
  "less_pyfloat (Fin a) (Fin b) = (a < b)"
| "less_pyfloat _ _ = False"

instance ..

end

text \<open>
  Python's built-in \<^verbatim>\<open>max(a, b)\<close> keeps \<open>a\<close> unless \<open>b > a\<close>, and \<^verbatim>\<open>min(a, b)\<close> keeps
  \<open>a\<close> unless \<open>b < a\<close>; with a \<open>NaN\<close> argument the first argument is returned.
\<close>

definition pymax :: "pyfloat \<Rightarrow> pyfloat \<Rightarrow> pyfloat" where
  "pymax a b = (if b > a then b else a)"

definition pymin :: "pyfloat \<Rightarrow> pyfloat \<Rightarrow> pyfloat" where
  "pymin a b = (if b < a then b else a)"

definition isnan :: "pyfloat \<Rightarrow> bool" where
  "isnan x = (case x of NaN \<Rightarrow> True | Fin _ \<Rightarrow> False)"

section \<open>Data model\<close>

text \<open>
  Exceptions of the Python code that the model keeps as values.
\<close>

datatype py_error = IndexError | KeyError | ValueError | AttributeError | TypeError

text \<open>
  A dict is an association list read with \<open>map_of\<close> (the \<^verbatim>\<open>.get\<close> of the code); a
  dataframe is the list of its rows in index order; a candle date is an integer time
  stamp. The trade is the host's object, of which the code reads four attributes.
\<close>

type_synonym 'a pydict = "(string \<times> 'a) list"

record trade =
  open_rate :: pyfloat
  fee_open :: pyfloat
  fee_close :: pyfloat
  open_date_utc :: int

text \<open>
  The per-pair frame stored by \<^verbatim>\<open>populate_indicators\<close> of the four fixed risk:reward
  strategies: the date index and one column (\<^verbatim>\<open>stoploss_rate\<close> or \<^verbatim>\<open>init_sl_price\<close>).
\<close>

type_synonym sl_frame = "(int \<times> pyfloat) list"

text \<open>
  The frame stored by SwingHighToSkyV2 and SwingATRBreakevenV2: the date index and the
  columns \<^verbatim>\<open>close\<close> and \<^verbatim>\<open>atr\<close>.
\<close>

type_synonym atr_frame = "(int \<times> pyfloat \<times> pyfloat) list"

definition atr_col :: "int \<times> pyfloat \<times> pyfloat \<Rightarrow> pyfloat" where
  "atr_col r = snd (snd r)"

section \<open>Pandas operations used by the lookups\<close>

text \<open>
  The stored frames are indexed by the candle date, which ascends. \<^verbatim>\<open>hist.loc[:t]\<close> on
  such an index is the prefix of the rows whose date is at most \<open>t\<close>; \<^verbatim>\<open>.tail(1)\<close> keeps
  the last row of a frame, if any.
\<close>

definition loc_upto :: "(int \<times> 'a) list \<Rightarrow> int \<Rightarrow> (int \<times> 'a) list" where
  "loc_upto hist t = takeWhile (\<lambda>r. fst r \<le> t) hist"

definition tail1 :: "'a list \<Rightarrow> 'a list" where
  "tail1 xs = (if xs = [] then [] else [last xs])"

text \<open>
  \<^verbatim>\<open>index.get_loc(when, method="ffill")\<close> depends on the installed pandas, which the
  repository does not pin. Before pandas 2.0 the call is the position of the last index
  entry at or before \<open>when\<close>, and raises KeyError when every entry is later. From pandas
  2.0 on \<^verbatim>\<open>get_loc\<close> has no \<^verbatim>\<open>method\<close> keyword and the call raises TypeError for every
  argument. The flag \<open>method_kw\<close> says whether the keyword is accepted; the callers catch
  either exception. \<^verbatim>\<open>df.iloc[i]\<close> raises IndexError out of range, and \<^verbatim>\<open>df.iloc[-1]\<close>
  does so on an empty frame.
\<close>

definition get_loc_ffill :: "bool \<Rightarrow> int list \<Rightarrow> int \<Rightarrow> py_error + nat" where
  "get_loc_ffill method_kw index when =
     (if \<not> method_kw then Inl TypeError
      else (let n = length (takeWhile (\<lambda>d. d \<le> when) index)
            in if n = 0 then Inl KeyError else Inr (n - 1)))"

definition iloc :: "'a list \<Rightarrow> nat \<Rightarrow> py_error + 'a" where
  "iloc df i = (if i < length df then Inr (df ! i) else Inl IndexError)"

definition iloc_last :: "'a list \<Rightarrow> py_error + 'a" where
  "iloc_last df = (if df = [] then Inl IndexError else Inr (last df))"

text \<open>
  Python's \<^verbatim>\<open>max\<close> of a list starts from the first item and replaces it by each later
  item that compares greater; it raises ValueError on an empty list.
\<close>

fun pymax_list :: "pyfloat list \<Rightarrow> py_error + pyfloat" where
  "pymax_list [] = Inl ValueError"
| "pymax_list (x # xs) = Inr (foldl pymax x xs)"

text \<open>The test \<^verbatim>\<open>current_profit is not None and current_profit >= level\<close>.\<close>

definition profit_ge :: "pyfloat option \<Rightarrow> real \<Rightarrow> bool" where
  "profit_ge current_profit level =
     (case current_profit of None \<Rightarrow> False | Some p \<Rightarrow> p \<ge> Fin level)"

section \<open>Entry-time reference lookups\<close>

text \<open>
  \<^verbatim>\<open>_lookup_open_sl_abs\<close> (FixedRiskRewardLossImproved, FixedRR_MultiMode) and
  \<^verbatim>\<open>_lookup_init_sl\<close> (SwingEMA_RSI_ATR, EdgeBreakRetestV1) have the same body up to the
  name of the column; the \<^verbatim>\<open>float(...)\<close> conversion cannot fail on a numeric cell.
\<close>

definition lookup_open_sl_abs :: "sl_frame pydict \<Rightarrow> string \<Rightarrow> int \<Rightarrow> pyfloat option" where
  "lookup_open_sl_abs custom_info pair open_time =
     (case map_of custom_info pair of
        None \<Rightarrow> None
      | Some hist \<Rightarrow>
          if hist = [] then None
          else (let row = tail1 (loc_upto hist open_time)
                in if row = [] then None else Some (snd (hd row))))"

definition lookup_init_sl :: "sl_frame pydict \<Rightarrow> string \<Rightarrow> int \<Rightarrow> pyfloat option" where
  "lookup_init_sl custom_info pair open_time =
     (case map_of custom_info pair of
        None \<Rightarrow> None
      | Some hist \<Rightarrow>
          if hist = [] then None
          else (let row = tail1 (loc_upto hist open_time)
                in if row = [] then None else Some (snd (hd row))))"

text \<open>
  \<^verbatim>\<open>_atr_at\<close> of SwingHighToSkyV2: 0.0 for an unknown pair or an empty frame, the ATR at
  the forward-filled position, and on any exception of that lookup (the KeyError of a
  query before the first date, or the TypeError of a pandas without the \<^verbatim>\<open>method\<close>
  keyword) the last ATR of the frame, or 0.0 without \<^verbatim>\<open>fallback_last\<close>.
\<close>

definition atr_at :: "bool \<Rightarrow> atr_frame pydict \<Rightarrow> string \<Rightarrow> int \<Rightarrow> bool \<Rightarrow> pyfloat" where
  "atr_at method_kw cache pair when fallback_last =
     (case map_of cache pair of
        None \<Rightarrow> Fin 0
      | Some df \<Rightarrow>
          if df = [] then Fin 0
          else (case (case get_loc_ffill method_kw (map fst df) when of
                        Inl e \<Rightarrow> Inl e
                      | Inr idx \<Rightarrow> (case iloc df idx of Inl e \<Rightarrow> Inl e | Inr r \<Rightarrow> Inr (atr_col r))) of
                  Inr v \<Rightarrow> v
                | Inl e \<Rightarrow> if fallback_last then atr_col (last df) else Fin 0))"

section \<open>The stop-loss callbacks of the fixed risk:reward strategies\<close>

text \<open>
  Each \<^verbatim>\<open>custom_stoploss\<close> takes the class attributes it reads (\<^verbatim>\<open>self.stoploss\<close> and the
  stage parameters, the per-pair store) followed by the arguments of the callback.
\<close>

definition FixedRiskRewardLossImproved_custom_stoploss ::
  "real \<Rightarrow> real \<Rightarrow> real \<Rightarrow> sl_frame pydict \<Rightarrow> string \<Rightarrow> trade \<Rightarrow> int \<Rightarrow> pyfloat \<Rightarrow> pyfloat option \<Rightarrow> pyfloat" where
  "FixedRiskRewardLossImproved_custom_stoploss stoploss rr_ratio break_even_R custom_info
       pair trade current_time current_rate current_profit =
     (case lookup_open_sl_abs custom_info pair (open_date_utc trade) of
        None \<Rightarrow> Fin stoploss
      | Some init_sl_abs \<Rightarrow>
          if current_rate \<le> Fin 0 then Fin stoploss
          else
            let risk_abs = pymax (Fin 0) (open_rate trade - init_sl_abs) in
            if risk_abs \<le> Fin 0 then Fin stoploss
            else
              let tp_abs = open_rate trade + Fin rr_ratio * risk_abs;
                  be_abs = open_rate trade * (Fin 1 + fee_open trade + fee_close trade);
                  be_trigger_abs = open_rate trade + Fin break_even_R * risk_abs;
                  result = init_sl_abs / current_rate - Fin 1;
                  result = (if current_rate \<ge> be_trigger_abs
                            then pymax result (be_abs / current_rate - Fin 1) else result);
                  result = (if current_rate \<ge> tp_abs
                            then pymax result (tp_abs / current_rate - Fin 1) else result)
              in pymax result (Fin stoploss))"

definition FixedRR_MultiMode_custom_stoploss ::
  "real \<Rightarrow> real \<Rightarrow> real \<Rightarrow> sl_frame pydict \<Rightarrow> string \<Rightarrow> trade \<Rightarrow> int \<Rightarrow> pyfloat \<Rightarrow> pyfloat option \<Rightarrow> pyfloat" where
  "FixedRR_MultiMode_custom_stoploss stoploss rr_ratio break_even_R custom_info
       pair trade current_time current_rate current_profit =
     (case lookup_open_sl_abs custom_info pair (open_date_utc trade) of
        None \<Rightarrow> Fin stoploss
      | Some init_sl_abs \<Rightarrow>
          if current_rate \<le> Fin 0 then Fin stoploss
          else
            let risk_abs = pymax (Fin 0) (open_rate trade - init_sl_abs) in
            if risk_abs \<le> Fin 0 then Fin stoploss
            else
              let tp_abs = open_rate trade + Fin rr_ratio * risk_abs;
                  be_abs = open_rate trade * (Fin 1 + fee_open trade + fee_close trade);
                  be_trigger_abs = open_rate trade + Fin break_even_R * risk_abs;
                  result = init_sl_abs / current_rate - Fin 1;
                  result = (if current_rate \<ge> be_trigger_abs
                            then pymax result (be_abs / current_rate - Fin 1) else result);
                  result = (if current_rate \<ge> tp_abs
                            then pymax result (tp_abs / current_rate - Fin 1) else result)
              in pymax result (Fin stoploss))"

definition SwingEMA_RSI_ATR_custom_stoploss ::
  "real \<Rightarrow> real \<Rightarrow> sl_frame pydict \<Rightarrow> string \<Rightarrow> trade \<Rightarrow> int \<Rightarrow> pyfloat \<Rightarrow> pyfloat option \<Rightarrow> pyfloat" where
  "SwingEMA_RSI_ATR_custom_stoploss stoploss rr_ratio custom_info
       pair trade current_time current_rate current_profit =
     (case lookup_init_sl custom_info pair (open_date_utc trade) of
        None \<Rightarrow> Fin stoploss
      | Some init_sl_abs \<Rightarrow>
          if current_rate \<le> Fin 0 then Fin stoploss
          else
            let risk_abs = pymax (Fin 0) (open_rate trade - init_sl_abs) in
            if risk_abs \<le> Fin 0 then Fin stoploss
            else
              let rr = Fin rr_ratio;
                  tp_abs = open_rate trade + rr * risk_abs;
                  be_trigger = open_rate trade + Fin 0.7 * risk_abs;
                  lock_trigger = open_rate trade + Fin 1.5 * risk_abs;
                  result = init_sl_abs / current_rate - Fin 1;
                  result = (if current_rate \<ge> be_trigger
                            then (let be_abs = open_rate trade * (Fin 1 + fee_open trade + fee_close trade)
                                  in pymax result (be_abs / current_rate - Fin 1))
                            else result);
                  result = (if current_rate \<ge> lock_trigger
                            then (let lock_abs = open_rate trade + Fin 0.5 * risk_abs
                                  in pymax result (lock_abs / current_rate - Fin 1))
                            else result);
                  result = (if current_rate \<ge> tp_abs
                            then (let tp_ratio = tp_abs / current_rate - Fin 1
                                  in pymax result tp_ratio)
                            else result)
              in pymax result (Fin stoploss))"

definition EdgeBreakRetestV1_custom_stoploss ::
  "real \<Rightarrow> real \<Rightarrow> sl_frame pydict \<Rightarrow> string \<Rightarrow> trade \<Rightarrow> int \<Rightarrow> pyfloat \<Rightarrow> pyfloat option \<Rightarrow> pyfloat" where
  "EdgeBreakRetestV1_custom_stoploss stoploss rr_ratio custom_info
       pair trade current_time current_rate current_profit =
     (case lookup_init_sl custom_info pair (open_date_utc trade) of
        None \<Rightarrow> Fin stoploss
      | Some init_sl_abs \<Rightarrow>
          if current_rate \<le> Fin 0 then Fin stoploss
          else
            let risk_abs = pymax (Fin 0) (open_rate trade - init_sl_abs) in
            if risk_abs \<le> Fin 0 then Fin stoploss
            else
              let rr = Fin rr_ratio;
                  tp_abs = open_rate trade + rr * risk_abs;
                  be_trigger = open_rate trade + Fin 0.7 * risk_abs;
                  lock_trigger = open_rate trade + Fin 1.5 * risk_abs;
                  result = init_sl_abs / current_rate - Fin 1;
                  result = (if current_rate \<ge> be_trigger
                            then (let be_abs = open_rate trade * (Fin 1 + fee_open trade + fee_close trade)
                                  in pymax result (be_abs / current_rate - Fin 1))
                            else result);
                  result = (if current_rate \<ge> lock_trigger
                            then (let lock_abs = open_rate trade + Fin 0.4 * risk_abs
                                  in pymax result (lock_abs / current_rate - Fin 1))
                            else result);
                  result = (if current_rate \<ge> tp_abs
                            then (let tp_ratio = tp_abs / current_rate - Fin 1
                                  in pymax result tp_ratio)
                            else result)
              in pymax result (Fin stoploss))"

section \<open>The stop-loss callbacks of the ATR strategies\<close>

text \<open>
  SwingHighToSkyV2: an ATR-capped initial stop from the ATR at entry, breakeven once the
  profit reaches \<^verbatim>\<open>be_trigger\<close>, an ATR trail once it reaches \<^verbatim>\<open>trail_trigger\<close>, and the
  floor \<^verbatim>\<open>self.stoploss\<close>. The two callbacks of this section take the flag \<open>method_kw\<close> of
  the installed pandas first, then the class attributes and the arguments of the callback.
\<close>

definition SwingHighToSkyV2_custom_stoploss ::
  "bool \<Rightarrow> real \<Rightarrow> real \<Rightarrow> real \<Rightarrow> real \<Rightarrow> real \<Rightarrow> real \<Rightarrow> real \<Rightarrow> atr_frame pydict
     \<Rightarrow> string \<Rightarrow> trade \<Rightarrow> int \<Rightarrow> pyfloat \<Rightarrow> pyfloat option \<Rightarrow> pyfloat" where
  "SwingHighToSkyV2_custom_stoploss method_kw stoploss atr_cap_mult max_atr_stop be_trigger trail_trigger
       trail_atr_mult max_trail cache pair trade current_time current_rate current_profit =
     (let atr_open = atr_at method_kw cache pair (open_date_utc trade) True;
          atr_cap = (if open_rate trade \<le> Fin 0 \<or> atr_open \<le> Fin 0 then Fin stoploss
                     else (let atr_frac = (atr_open / open_rate trade) * Fin atr_cap_mult;
                               atr_frac = pymin atr_frac (Fin max_atr_stop)
                           in - pymax (Fin 0.005) atr_frac));
          sl = atr_cap;
          sl = (if profit_ge current_profit be_trigger
                then (let be_price = open_rate trade * (Fin 1 + fee_open trade + fee_close trade);
                          be_ratio = be_price / pymax current_rate (Fin (1 / 10 ^ 9)) - Fin 1
                      in pymax sl be_ratio)
                else sl);
          sl = (if profit_ge current_profit trail_trigger
                then (let atr_now = atr_at method_kw cache pair current_time True
                      in if atr_now > Fin 0 \<and> current_rate > Fin 0
                         then (let trail_frac = pymin (Fin max_trail)
                                     (pymax (Fin 0.004) ((atr_now / current_rate) * Fin trail_atr_mult));
                                   trail_sl = - trail_frac
                               in pymax sl trail_sl)
                         else sl)
                else sl);
          sl = pymax sl (Fin stoploss)
      in sl)"

text \<open>
  SwingATRBreakevenV2 reads the ATR at entry and the current ATR from its own store
  (\<^verbatim>\<open>get_loc(..., method="ffill")\<close>, falling back to the last row on an exception),
  collects the candidates in a list and returns the largest, not below the floor.
\<close>

definition atr_ffill_or_last :: "bool \<Rightarrow> atr_frame \<Rightarrow> int \<Rightarrow> py_error + pyfloat" where
  "atr_ffill_or_last method_kw info_df when =
     (case (case get_loc_ffill method_kw (map fst info_df) when of
              Inl e \<Rightarrow> Inl e
            | Inr idx \<Rightarrow> (case iloc info_df idx of Inl e \<Rightarrow> Inl e | Inr r \<Rightarrow> Inr (atr_col r))) of
        Inr v \<Rightarrow> Inr v
      | Inl e \<Rightarrow> (case iloc_last info_df of Inl e' \<Rightarrow> Inl e' | Inr r \<Rightarrow> Inr (atr_col r)))"

definition SwingATRBreakevenV2_custom_stoploss ::
  "bool \<Rightarrow> real \<Rightarrow> real \<Rightarrow> real \<Rightarrow> real \<Rightarrow> real \<Rightarrow> real \<Rightarrow> real \<Rightarrow> atr_frame pydict
     \<Rightarrow> string \<Rightarrow> trade \<Rightarrow> int \<Rightarrow> pyfloat \<Rightarrow> pyfloat option \<Rightarrow> py_error + pyfloat" where
  "SwingATRBreakevenV2_custom_stoploss method_kw stoploss atr_init_mult atr_trail_mult breakeven_trigger
       trail_trigger max_init_sl max_trail_sl custom_info pair trade current_time current_rate
       current_profit =
     (case map_of custom_info pair of
        None \<Rightarrow> Inr (Fin stoploss)
      | Some info_df \<Rightarrow>
          if info_df = [] then Inr (Fin stoploss)
          else
            (case atr_ffill_or_last method_kw info_df (open_date_utc trade) of
               Inl e \<Rightarrow> Inl e
             | Inr atr_at_open \<Rightarrow>
            (case atr_ffill_or_last method_kw info_df current_time of
               Inl e \<Rightarrow> Inl e
             | Inr atr_now \<Rightarrow>
                 let init_mult = Fin atr_init_mult;
                     max_init = Fin max_init_sl;
                     init_sl_frac = atr_at_open / pymax (open_rate trade) (Fin (1 / 10 ^ 9)) * init_mult;
                     init_sl_frac = pymin init_sl_frac max_init;
                     sl_candidates = [- init_sl_frac];
                     sl_candidates =
                       (if profit_ge current_profit breakeven_trigger
                        then (let be_price = open_rate trade * (Fin 1 + fee_open trade + fee_close trade);
                                  be_ratio = be_price / pymax current_rate (Fin (1 / 10 ^ 9)) - Fin 1
                              in sl_candidates @ [be_ratio])
                        else sl_candidates);
                     sl_candidates =
                       (if profit_ge current_profit trail_trigger
                        then (let trail_mult = Fin atr_trail_mult;
                                  max_trail = Fin max_trail_sl;
                                  trail_frac = atr_now / pymax current_rate (Fin (1 / 10 ^ 9)) * trail_mult;
                                  trail_frac = pymin (pymax (Fin 0.004) trail_frac) max_trail
                              in sl_candidates @ [- trail_frac])
                        else sl_candidates)
                 in (case pymax_list sl_candidates of
                       Inl e \<Rightarrow> Inl e
                     | Inr sl \<Rightarrow> Inr (pymax sl (Fin stoploss))))))"

section \<open>The stop-loss callbacks that read the analyzed dataframe\<close>

text \<open>
  Both strategies ask the data provider for the analyzed dataframe of the pair and read
  its last row with \<^verbatim>\<open>df.iloc[-1]\<close>. The provider is \<^verbatim>\<open>self.dp\<close>, \<open>None\<close> when unset; it
  answers with an empty frame for a pair it has no data for.

  Of the last row, Sma20RsiBbAtrStrategy reads \<^verbatim>\<open>last["close"]\<close> and
  \<^verbatim>\<open>last.get("atr", ...)\<close>; the ATR cell is \<open>None\<close> when the column is missing.
\<close>

record sma_row =
  row_close :: pyfloat
  row_atr :: "pyfloat option"

definition Sma20RsiBbAtrStrategy_custom_stoploss ::
  "real \<Rightarrow> (string \<Rightarrow> sma_row list) option
     \<Rightarrow> string \<Rightarrow> trade \<Rightarrow> int \<Rightarrow> pyfloat \<Rightarrow> pyfloat option \<Rightarrow> py_error + pyfloat" where
  "Sma20RsiBbAtrStrategy_custom_stoploss stoploss dp pair trade current_time current_rate
       current_profit =
     (case dp of
        None \<Rightarrow> Inl AttributeError
      | Some get_analyzed_dataframe \<Rightarrow>
          let df = get_analyzed_dataframe pair in
          (case iloc_last df of
             Inl e \<Rightarrow> Inl e
           | Inr last_row \<Rightarrow>
               let close = row_close last_row;
                   atr_val = (if \<not> isnan (case row_atr last_row of None \<Rightarrow> NaN | Some a \<Rightarrow> a)
                              then (case row_atr last_row of None \<Rightarrow> Fin 0 | Some a \<Rightarrow> a)
                              else Fin 0);
                   atr_pct = (if close > Fin 0 then atr_val / close else Fin 0);
                   wild = (atr_pct \<ge> Fin 0.02);
                   atr_based = (if wild
                                then - pymin (Fin 0.15) (pymax (Fin 0.012) (atr_pct * Fin 2.2))
                                else - pymin (Fin 0.08) (pymax (Fin 0.008) (atr_pct * Fin 1.2)));
                   sl = atr_based;
                   sl = (case current_profit of
                           None \<Rightarrow> sl
                         | Some profit \<Rightarrow>
                             if profit > Fin 0.04
                             then (let profit_trail =
                                         - pymax (Fin 0.015) (pymin (Fin 0.05) (profit * Fin 0.5))
                                   in pymax atr_based profit_trail)
                             else sl);
                   sl = pymax sl (Fin stoploss)
               in Inr sl))"

text \<open>
  CustomStoplossWithPSAR returns 1 unless the pair is cached, the trade and the data
  provider are set, the last row has a \<^verbatim>\<open>sar\<close> value and the rate is positive. A row of the
  analyzed dataframe is represented by what \<^verbatim>\<open>last.get('sar', None)\<close> yields. The class
  attribute \<^verbatim>\<open>stoploss\<close> is -0.08; the clamp bounds are literals of the code.
\<close>

definition CustomStoplossWithPSAR_stoploss :: real where
  "CustomStoplossWithPSAR_stoploss = - 0.08"

definition CustomStoplossWithPSAR_custom_stoploss ::
  "sl_frame pydict \<Rightarrow> (string \<Rightarrow> pyfloat option list) option
     \<Rightarrow> string \<Rightarrow> trade option \<Rightarrow> int \<Rightarrow> pyfloat \<Rightarrow> pyfloat option \<Rightarrow> py_error + pyfloat" where
  "CustomStoplossWithPSAR_custom_stoploss custom_info dp pair trade current_time current_rate
       current_profit =
     (let result = Fin 1 in
      if custom_info \<noteq> [] \<and> map_of custom_info pair \<noteq> None \<and> trade \<noteq> None
      then (case dp of
              None \<Rightarrow> Inr result
            | Some get_analyzed_dataframe \<Rightarrow>
                let df = get_analyzed_dataframe pair in
                (case iloc_last df of
                   Inl e \<Rightarrow> Inl e
                 | Inr last_row \<Rightarrow>
                     (case last_row of
                        None \<Rightarrow> Inr result
                      | Some sar \<Rightarrow>
                          if current_rate > Fin 0
                          then (let rel = (current_rate - sar) / current_rate - Fin 1
                                in Inr (pymax (pymin rel (Fin (- 0.02))) (Fin (- 0.08))))
                          else Inr result)))
      else Inr result)"

section \<open>Entry signals of CustomStoplossWithPSAR\<close>

text \<open>
  \<^verbatim>\<open>populate_entry_trend\<close> works on the columns of the indicator dataframe. A row holds
  the columns the rules read; \<^verbatim>\<open>shift(1)\<close> of a column is the value of the row before,
  and not-a-number on the first row. The columns \<^verbatim>\<open>enter_long\<close> and \<^verbatim>\<open>enter_tag\<close> do not
  exist before the first assignment, so a row no rule has written is unset (\<open>None\<close>).
\<close>

record candle =
  ema20 :: pyfloat
  ema50 :: pyfloat
  ema200 :: pyfloat
  close :: pyfloat
  rsi :: pyfloat
  macdhist :: pyfloat
  atrp :: pyfloat
  vol_ma20 :: pyfloat
  sar :: pyfloat

definition shift1 :: "(candle \<Rightarrow> pyfloat) \<Rightarrow> candle list \<Rightarrow> nat \<Rightarrow> pyfloat" where
  "shift1 col dataframe i = (if i = 0 then NaN else col (dataframe ! (i - 1)))"

definition strong_up :: "candle list \<Rightarrow> nat \<Rightarrow> bool" where
  "strong_up dataframe i =
     (let r = dataframe ! i
      in ema20 r > ema50 r \<and> ema50 r > ema200 r \<and> close r > ema50 r)"

definition mom_ok :: "candle list \<Rightarrow> nat \<Rightarrow> bool" where
  "mom_ok dataframe i = (let r = dataframe ! i in rsi r > Fin 45 \<and> macdhist r > Fin 0)"

definition vol_ok :: "candle list \<Rightarrow> nat \<Rightarrow> bool" where
  "vol_ok dataframe i =
     (let r = dataframe ! i
      in atrp r > Fin 0.005 \<and> atrp r < Fin 0.03 \<and> vol_ma20 r > Fin 0)"

definition psar_bull_flip :: "candle list \<Rightarrow> nat \<Rightarrow> bool" where
  "psar_bull_flip dataframe i =
     (let r = dataframe ! i
      in sar r < close r \<and> shift1 sar dataframe i \<ge> shift1 close dataframe i)"

definition cond_psar_strict :: "candle list \<Rightarrow> nat \<Rightarrow> bool" where
  "cond_psar_strict dataframe i =
     (psar_bull_flip dataframe i \<and> strong_up dataframe i \<and> mom_ok dataframe i \<and> vol_ok dataframe i)"

definition rsi_rebound :: "candle list \<Rightarrow> nat \<Rightarrow> bool" where
  "rsi_rebound dataframe i =
     (let r = dataframe ! i
      in rsi r > Fin 35 \<and> shift1 rsi dataframe i \<le> Fin 35 \<and> close r > ema20 r)"

definition cond_rsi :: "candle list \<Rightarrow> nat \<Rightarrow> bool" where
  "cond_rsi dataframe i =
     (rsi_rebound dataframe i \<and> strong_up dataframe i \<and> vol_ok dataframe i)"

text \<open>
  \<^verbatim>\<open>dataframe.loc[mask, column] = v\<close> writes \<open>v\<close> into the rows where the mask holds and
  leaves the other rows of the column as they are.
\<close>

definition loc_assign :: "bool list \<Rightarrow> 'a \<Rightarrow> 'a option list \<Rightarrow> 'a option list" where
  "loc_assign cond v column = map (\<lambda>(m, c). if m then Some v else c) (zip cond column)"

definition populate_entry_trend :: "candle list \<Rightarrow> (int option \<times> string option) list" where
  "populate_entry_trend dataframe =
     (let rows = [0..<length dataframe];
          mask_psar_strict = map (cond_psar_strict dataframe) rows;
          mask_rsi = map (cond_rsi dataframe) rows;
          enter_long = replicate (length dataframe) None;
          enter_tag = replicate (length dataframe) None;
          enter_long = loc_assign mask_psar_strict 1 enter_long;
          enter_tag = loc_assign mask_psar_strict ''psar_bull_flip_strict'' enter_tag;
          enter_long = loc_assign mask_rsi 1 enter_long;
          enter_tag = loc_assign mask_rsi ''rsi_rebound_35'' enter_tag
      in zip enter_long enter_tag)"

section \<open>Class attributes used in the scenarios\<close>

definition SwingEMA_RSI_ATR_stoploss :: real where
  "SwingEMA_RSI_ATR_stoploss = - 0.20"

definition Sma20RsiBbAtrStrategy_stoploss :: real where
  "Sma20RsiBbAtrStrategy_stoploss = - 0.10"

definition SwingHighToSkyV2_stoploss :: real where
  "SwingHighToSkyV2_stoploss = - 0.34338"

section \<open>Concrete inputs\<close>

text \<open>
  One pair with three candles, a trade opened between the second and the third, and the
  analyzed dataframes the data provider returns for it.
\<close>

definition example_trade :: trade where
  "example_trade = \<lparr>open_rate = Fin 100, fee_open = Fin 0.001, fee_close = Fin 0.001, open_date_utc = 15\<rparr>"

definition example_custom_info :: "sl_frame pydict" where
  "example_custom_info = [(''BTC/USDT'', [(0, Fin 97), (10, Fin 98), (20, Fin 99)])]"

definition example_cache :: "atr_frame pydict" where
  "example_cache = [(''BTC/USDT'', [(0, Fin 99, Fin 1.5), (10, Fin 100, Fin 2), (20, Fin 101, Fin 2.5)])]"

definition example_sma_dp :: "string \<Rightarrow> sma_row list" where
  "example_sma_dp pair =
     (if pair = ''BTC/USDT'' then [\<lparr>row_close = Fin 100, row_atr = Some (Fin 1)\<rparr>] else [])"

definition example_psar_dp :: "string \<Rightarrow> pyfloat option list" where
  "example_psar_dp pair = (if pair = ''BTC/USDT'' then [Some (Fin 95)] else [])"

text \<open>
  A stored frame and analyzed dataframes that hold not-a-number indicator values, as the
  indicator library yields during warm-up.
\<close>

definition nan_atr_info :: "atr_frame pydict" where
  "nan_atr_info = [(''BTC/USDT'', [(0, Fin 99, NaN), (10, Fin 100, NaN), (20, Fin 101, NaN)])]"

definition nan_psar_dp :: "string \<Rightarrow> pyfloat option list" where
  "nan_psar_dp pair = [Some (Fin 95), Some NaN]"

definition nan_sma_dp :: "string \<Rightarrow> sma_row list" where
  "nan_sma_dp pair = [\<lparr>row_close = Fin 100, row_atr = Some NaN\<rparr>]"

text \<open>
  Two candles of the indicator dataframe of CustomStoplossWithPSAR; on the second both the
  strict PSAR bull flip and the RSI rebound hold.
\<close>

definition example_candles :: "candle list" where
  "example_candles =
     [\<lparr>ema20 = Fin 101, ema50 = Fin 100, ema200 = Fin 99, close = Fin 100, rsi = Fin 30,
       macdhist = Fin (- 1), atrp = Fin 0.01, vol_ma20 = Fin 10, sar = Fin 105\<rparr>,
      \<lparr>ema20 = Fin 101, ema50 = Fin 100, ema200 = Fin 99, close = Fin 102, rsi = Fin 50,
       macdhist = Fin 1, atrp = Fin 0.01, vol_ma20 = Fin 10, sar = Fin 101.5\<rparr>]"

section \<open>Basic facts about the float operations\<close>

lemma pymax_Fin [simp]: "pymax (Fin a) (Fin b) = Fin (max a b)"
  by (simp add: pymax_def max_def)

lemma pymin_Fin [simp]: "pymin (Fin a) (Fin b) = Fin (min a b)"
  by (simp add: pymin_def min_def)

lemma pymax_NaN [simp]: "pymax a NaN = a" "pymax NaN b = NaN"
  by (cases a; simp add: pymax_def)+

lemma pymin_NaN [simp]: "pymin a NaN = a" "pymin NaN b = NaN"
  by (cases a; simp add: pymin_def)+

lemma isnan_simps [simp]: "isnan NaN" "\<not> isnan (Fin x)"
  by (simp_all add: isnan_def)

lemma isnan_pymax [simp]: "isnan (pymax a b) = isnan a"
  by (cases a; cases b; simp add: pymax_def isnan_def)

lemma pymax_floor: "\<not> isnan x \<Longrightarrow> Fin s \<le> pymax x (Fin s)"
  by (cases x; simp)

lemma risk_pos:
  "\<not> pymax (Fin 0) (a - b) \<le> Fin 0 \<Longrightarrow> \<exists>x y. a = Fin x \<and> b = Fin y \<and> y < x"
  by (cases a; cases b; simp)

lemma isnan_uminus [simp]: "isnan (- a) = isnan a"
  by (cases a; simp)

lemma isnan_pymin [simp]: "isnan (pymin a b) = isnan a"
  by (cases a; cases b; simp add: pymin_def isnan_def)

lemma isnan_foldl_pymax [simp]: "isnan (foldl pymax a xs) = isnan a"
  by (induction xs arbitrary: a) simp_all

section \<open>The staged computation on the scenario of the specification\<close>

text \<open>
  Claim C8. SwingEMA_RSI_ATR with entry price 100, entry-time stop reference 98 (risk 2),
  risk:reward ratio 2.0 and both fees 0.001: the callback returns 98/101 - 1 at rate 101
  (below the breakeven trigger 101.4), 100.2/102 - 1 at rate 102 (breakeven stage) and
  104/105 - 1 at rate 105 (trailing at the target line 104). The values are exact in the
  real-number model of the floats.
\<close>

theorem swing_ema_staged_scenario:
  assumes "lookup_init_sl custom_info pair (open_date_utc trade) = Some (Fin 98)"
    and "open_rate trade = Fin 100" and "fee_open trade = Fin 0.001" and "fee_close trade = Fin 0.001"
  shows "SwingEMA_RSI_ATR_custom_stoploss SwingEMA_RSI_ATR_stoploss 2.0 custom_info pair trade
           current_time (Fin 101) current_profit = Fin (98 / 101 - 1)
       \<and> SwingEMA_RSI_ATR_custom_stoploss SwingEMA_RSI_ATR_stoploss 2.0 custom_info pair trade
           current_time (Fin 102) current_profit = Fin (100.2 / 102 - 1)
       \<and> SwingEMA_RSI_ATR_custom_stoploss SwingEMA_RSI_ATR_stoploss 2.0 custom_info pair trade
           current_time (Fin 105) current_profit = Fin (104 / 105 - 1)"
  using assms
  by (simp add: SwingEMA_RSI_ATR_custom_stoploss_def SwingEMA_RSI_ATR_stoploss_def Let_def)

theorem swing_ema_staged_scenario_witness:
  "lookup_init_sl [(''BTC/USDT'', [(0, Fin 97), (10, Fin 98), (20, Fin 99)])] ''BTC/USDT'' 15 = Some (Fin 98)
   \<and> SwingEMA_RSI_ATR_custom_stoploss SwingEMA_RSI_ATR_stoploss 2.0
         [(''BTC/USDT'', [(0, Fin 97), (10, Fin 98), (20, Fin 99)])] ''BTC/USDT''
         \<lparr>open_rate = Fin 100, fee_open = Fin 0.001, fee_close = Fin 0.001, open_date_utc = 15\<rparr>
         30 (Fin 101) None = Fin (98 / 101 - 1)
   \<and> SwingEMA_RSI_ATR_custom_stoploss SwingEMA_RSI_ATR_stoploss 2.0
         [(''BTC/USDT'', [(0, Fin 97), (10, Fin 98), (20, Fin 99)])] ''BTC/USDT''
         \<lparr>open_rate = Fin 100, fee_open = Fin 0.001, fee_close = Fin 0.001, open_date_utc = 15\<rparr>
         30 (Fin 102) None = Fin (100.2 / 102 - 1)
   \<and> SwingEMA_RSI_ATR_custom_stoploss SwingEMA_RSI_ATR_stoploss 2.0
         [(''BTC/USDT'', [(0, Fin 97), (10, Fin 98), (20, Fin 99)])] ''BTC/USDT''
         \<lparr>open_rate = Fin 100, fee_open = Fin 0.001, fee_close = Fin 0.001, open_date_utc = 15\<rparr>
         30 (Fin 105) None = Fin (104 / 105 - 1)"
proof -
  have h: "lookup_init_sl [(''BTC/USDT'', [(0, Fin 97), (10, Fin 98), (20, Fin 99)])] ''BTC/USDT''
             (open_date_utc \<lparr>open_rate = Fin 100, fee_open = Fin 0.001, fee_close = Fin 0.001,
                             open_date_utc = 15\<rparr>)
           = Some (Fin 98)"
    by (simp add: lookup_init_sl_def loc_upto_def tail1_def)
  from swing_ema_staged_scenario [OF h, of 30 None] h show ?thesis by simp
qed

section \<open>The floor invariant\<close>

text \<open>
  Each callback ends with \<^verbatim>\<open>max(..., self.stoploss)\<close>. Where the value reaching that maximum
  is a number the result is not below the floor; a not-a-number value passes through it.
  The cases per strategy follow.
\<close>

lemma FRRL_floor:
  "Fin stoploss \<le> FixedRiskRewardLossImproved_custom_stoploss stoploss rr be ci pair trade t (Fin c) cp"
  unfolding FixedRiskRewardLossImproved_custom_stoploss_def Let_def
  by (auto split: option.splits dest!: risk_pos intro!: pymax_floor)

lemma MultiMode_floor:
  "Fin stoploss \<le> FixedRR_MultiMode_custom_stoploss stoploss rr be ci pair trade t (Fin c) cp"
  unfolding FixedRR_MultiMode_custom_stoploss_def Let_def
  by (auto split: option.splits dest!: risk_pos intro!: pymax_floor)

lemma SwingEMA_floor:
  "Fin stoploss \<le> SwingEMA_RSI_ATR_custom_stoploss stoploss rr ci pair trade t (Fin c) cp"
  unfolding SwingEMA_RSI_ATR_custom_stoploss_def Let_def
  by (auto split: option.splits dest!: risk_pos intro!: pymax_floor)

lemma EdgeBreak_floor:
  "Fin stoploss \<le> EdgeBreakRetestV1_custom_stoploss stoploss rr ci pair trade t (Fin c) cp"
  unfolding EdgeBreakRetestV1_custom_stoploss_def Let_def
  by (auto split: option.splits dest!: risk_pos intro!: pymax_floor)

lemma SHTS_floor:
  "Fin stoploss \<le> SwingHighToSkyV2_custom_stoploss method_kw stoploss a b c d e f cache pair trade t cr cp"
  unfolding SwingHighToSkyV2_custom_stoploss_def Let_def
  by (rule pymax_floor) simp

lemma atr_ffill_or_last_in:
  assumes "info_df \<noteq> []"
  shows "\<exists>r\<in>set info_df. atr_ffill_or_last method_kw info_df t = Inr (atr_col r)"
proof (cases "method_kw \<and> takeWhile (\<lambda>d. d \<le> t) (map fst info_df) \<noteq> []")
  case False
  then show ?thesis using assms
    by (auto simp: atr_ffill_or_last_def get_loc_ffill_def iloc_last_def)
next
  case True
  let ?n = "length (takeWhile (\<lambda>d. d \<le> t) (map fst info_df))"
  have "?n \<le> length (map fst info_df)" by (rule length_takeWhile_le)
  moreover have "0 < ?n" using True by simp
  ultimately have "?n - 1 < length info_df" by (simp only: length_map)
  then show ?thesis using True
    by (auto simp: atr_ffill_or_last_def get_loc_ffill_def iloc_def Let_def)
qed

lemma SATR_floor:
  assumes "open_rate trade = Fin e"
    and "\<forall>frame. map_of ci pair = Some frame \<longrightarrow> frame \<noteq> [] \<longrightarrow>
           (\<exists>x. atr_ffill_or_last method_kw frame (open_date_utc trade) = Inr (Fin x))"
  shows "\<exists>r. SwingATRBreakevenV2_custom_stoploss method_kw stoploss a b c d e' f ci pair trade t cr cp = Inr r
             \<and> Fin stoploss \<le> r"
proof (cases "map_of ci pair")
  case None
  then show ?thesis by (simp add: SwingATRBreakevenV2_custom_stoploss_def)
next
  case (Some frame)
  show ?thesis
  proof (cases "frame = []")
    case True
    with Some show ?thesis by (simp add: SwingATRBreakevenV2_custom_stoploss_def)
  next
    case False
    from assms(2) Some False
    obtain x where x: "atr_ffill_or_last method_kw frame (open_date_utc trade) = Inr (Fin x)"
      by blast
    from atr_ffill_or_last_in [OF False, where t = "t" and method_kw = method_kw]
    obtain y where y: "atr_ffill_or_last method_kw frame t = Inr y"
      by blast
    show ?thesis using Some False x y assms(1)
      by (auto simp: SwingATRBreakevenV2_custom_stoploss_def Let_def intro!: pymax_floor)
  qed
qed

lemma SATR_total:
  "\<exists>r. SwingATRBreakevenV2_custom_stoploss method_kw stoploss atr_init_mult atr_trail_mult
         breakeven_trigger trail_trigger max_init_sl max_trail_sl custom_info pair trade
         current_time current_rate current_profit = Inr r"
proof (cases "map_of custom_info pair")
  case None
  then show ?thesis by (simp add: SwingATRBreakevenV2_custom_stoploss_def)
next
  case (Some frame)
  show ?thesis
  proof (cases "frame = []")
    case True
    with Some show ?thesis by (simp add: SwingATRBreakevenV2_custom_stoploss_def)
  next
    case False
    from atr_ffill_or_last_in [OF False, where t = "open_date_utc trade" and method_kw = method_kw]
    obtain x where x: "atr_ffill_or_last method_kw frame (open_date_utc trade) = Inr x" by blast
    from atr_ffill_or_last_in [OF False, where t = "current_time" and method_kw = method_kw]
    obtain y where y: "atr_ffill_or_last method_kw frame current_time = Inr y" by blast
    show ?thesis using Some False x y
      by (simp add: SwingATRBreakevenV2_custom_stoploss_def Let_def)
  qed
qed

lemma Sma20_floor:
  assumes "dp pair \<noteq> []"
  shows "\<exists>r. Sma20RsiBbAtrStrategy_custom_stoploss stoploss (Some dp) pair trade t cr cp = Inr r
             \<and> Fin stoploss \<le> r"
  using assms
  by (auto simp: Sma20RsiBbAtrStrategy_custom_stoploss_def iloc_last_def Let_def
      split: option.splits intro!: pymax_floor)

lemma PSAR_range:
  assumes "dp pair \<noteq> []" and "last (dp pair) \<noteq> Some NaN"
  shows "\<exists>r. CustomStoplossWithPSAR_custom_stoploss ci (Some dp) pair trade t cr cp = Inr (Fin r)
             \<and> (r = 1 \<or> (- 0.08 \<le> r \<and> r \<le> - 0.02))"
proof (cases "last (dp pair)")
  case None
  with assms show ?thesis
    by (simp add: CustomStoplossWithPSAR_custom_stoploss_def iloc_last_def Let_def)
next
  case (Some s)
  with assms(2) obtain x where x: "s = Fin x" by (cases s) auto
  show ?thesis
  proof (cases cr)
    case NaN
    with assms Some show ?thesis
      by (simp add: CustomStoplossWithPSAR_custom_stoploss_def iloc_last_def Let_def)
  next
    case (Fin c)
    with assms Some x show ?thesis
      by (simp add: CustomStoplossWithPSAR_custom_stoploss_def iloc_last_def Let_def)
  qed
qed

text \<open>
  On inputs that are numbers the floor holds in all eight strategies: the current rate is
  a number; for SwingATRBreakevenV2 the entry price and the ATR it reads for the entry
  time are numbers; for the two strategies that read the analyzed dataframe, the frame
  has a last row, and for CustomStoplossWithPSAR the SAR value of that row is not
  not-a-number. The floor of CustomStoplossWithPSAR is its class attribute -0.08, which is
  also the literal lower bound of its clamp.
\<close>

lemma floor_on_numeric_inputs:
  assumes rate: "current_rate = Fin c"
    and entry: "open_rate trade = Fin e"
    and atr_cells: "\<forall>frame. map_of atr_info pair = Some frame \<longrightarrow> frame \<noteq> [] \<longrightarrow>
           (\<exists>x. atr_ffill_or_last method_kw frame (open_date_utc trade) = Inr (Fin x))"
    and sma_df: "sma_dp pair \<noteq> []"
    and psar_df: "psar_dp pair \<noteq> []" "last (psar_dp pair) \<noteq> Some NaN"
  shows "Fin stoploss \<le> FixedRiskRewardLossImproved_custom_stoploss stoploss rr_ratio break_even_R
             custom_info pair trade current_time current_rate current_profit
       \<and> Fin stoploss \<le> FixedRR_MultiMode_custom_stoploss stoploss rr_ratio break_even_R
             custom_info pair trade current_time current_rate current_profit
       \<and> Fin stoploss \<le> SwingEMA_RSI_ATR_custom_stoploss stoploss rr_ratio
             custom_info pair trade current_time current_rate current_profit
       \<and> Fin stoploss \<le> EdgeBreakRetestV1_custom_stoploss stoploss rr_ratio
             custom_info pair trade current_time current_rate current_profit
       \<and> Fin stoploss \<le> SwingHighToSkyV2_custom_stoploss method_kw stoploss atr_cap_mult max_atr_stop
             be_trigger trail_trigger trail_atr_mult max_trail atr_info pair trade current_time
             current_rate current_profit
       \<and> (\<exists>r. SwingATRBreakevenV2_custom_stoploss method_kw stoploss atr_init_mult atr_trail_mult
                 breakeven_trigger trail_trigger max_init_sl max_trail_sl atr_info pair trade
                 current_time current_rate current_profit = Inr r \<and> Fin stoploss \<le> r)
       \<and> (\<exists>r. Sma20RsiBbAtrStrategy_custom_stoploss stoploss (Some sma_dp) pair trade
                 current_time current_rate current_profit = Inr r \<and> Fin stoploss \<le> r)
       \<and> (\<exists>r. CustomStoplossWithPSAR_custom_stoploss psar_info (Some psar_dp) pair psar_trade
                 current_time current_rate current_profit = Inr r
              \<and> Fin CustomStoplossWithPSAR_stoploss \<le> r)"
proof -
  from PSAR_range [where dp = psar_dp and pair = pair, OF psar_df,
      of psar_info psar_trade current_time current_rate current_profit]
  obtain r where r: "CustomStoplossWithPSAR_custom_stoploss psar_info (Some psar_dp) pair psar_trade
                 current_time current_rate current_profit = Inr (Fin r)"
      "r = 1 \<or> (- 0.08 \<le> r \<and> r \<le> - 0.02)" by blast
  then have psar: "\<exists>r. CustomStoplossWithPSAR_custom_stoploss psar_info (Some psar_dp) pair psar_trade
                 current_time current_rate current_profit = Inr r
              \<and> Fin CustomStoplossWithPSAR_stoploss \<le> r"
    by (auto simp: CustomStoplossWithPSAR_stoploss_def)
  show ?thesis
    unfolding rate
    by (intro conjI FRRL_floor MultiMode_floor SwingEMA_floor EdgeBreak_floor SHTS_floor
        SATR_floor [OF entry atr_cells] Sma20_floor [where dp = sma_dp and pair = pair, OF sma_df]
        psar [unfolded rate])
qed

text \<open>
  Claim C1. The floor invariant says that the ratio returned by every strategy's
  \<^verbatim>\<open>custom_stoploss\<close> is at least the configured floor \<^verbatim>\<open>stoploss\<close>. Indicator values may
  be not-a-number during warm-up, and SwingATRBreakevenV2 does not guard the ATR it reads:
  with a not-a-number ATR, \<^verbatim>\<open>min(init_sl_frac, max_init)\<close> keeps its not-a-number first
  argument, the maximum of the candidate list starts from it and keeps it, and so does
  \<^verbatim>\<open>max(sl, self.stoploss)\<close>. The evaluation below is such a frame, under either behaviour
  of \<^verbatim>\<open>get_loc\<close>: the result is not-a-number, which is not at least the floor -0.10.
\<close>

theorem floor_fails_on_nan_atr:
  "SwingATRBreakevenV2_custom_stoploss True (- 0.10) 1.5 1.0 0.015 0.03 0.035 0.05
       nan_atr_info ''BTC/USDT'' example_trade 30 (Fin 102) None = Inr NaN
   \<and> SwingATRBreakevenV2_custom_stoploss False (- 0.10) 1.5 1.0 0.015 0.03 0.035 0.05
       nan_atr_info ''BTC/USDT'' example_trade 30 (Fin 102) None = Inr NaN
   \<and> \<not> Fin (- 0.10) \<le> NaN"
  by (simp add: SwingATRBreakevenV2_custom_stoploss_def nan_atr_info_def example_trade_def
      atr_ffill_or_last_def get_loc_ffill_def iloc_def iloc_last_def atr_col_def profit_ge_def
      Let_def)

section \<open>Breakeven: no net loss once triggered\<close>

text \<open>
  The ratio returned stands for the stop price \<open>current_rate * (1 + ratio)\<close>. Once the
  breakeven stage is entered, the result is at least the breakeven candidate, whose stop
  price is the entry price with both fees added.
\<close>

lemma be_price_le:
  fixes c r :: real
  assumes "0 < c" and "b / c - 1 \<le> r"
  shows "b \<le> c * (1 + r)"
proof -
  from assms have "b / c \<le> 1 + r" by simp
  with assms(1) show ?thesis by (simp add: pos_divide_le_eq mult.commute)
qed

lemma FRRL_breakeven:
  assumes "lookup_open_sl_abs custom_info pair (open_date_utc trade) = Some (Fin s)"
    and "open_rate trade = Fin e" and "fee_open trade = Fin fo" and "fee_close trade = Fin fc"
    and "s < e" and "0 < c" and "e + break_even_R * (e - s) \<le> c"
  shows "\<exists>r. FixedRiskRewardLossImproved_custom_stoploss stoploss rr_ratio break_even_R custom_info
              pair trade current_time (Fin c) current_profit = Fin r
           \<and> e * (1 + fo + fc) \<le> c * (1 + r)"
  using assms
  by (auto simp: FixedRiskRewardLossImproved_custom_stoploss_def Let_def intro!: be_price_le)

lemma MultiMode_breakeven:
  assumes "lookup_open_sl_abs custom_info pair (open_date_utc trade) = Some (Fin s)"
    and "open_rate trade = Fin e" and "fee_open trade = Fin fo" and "fee_close trade = Fin fc"
    and "s < e" and "0 < c" and "e + break_even_R * (e - s) \<le> c"
  shows "\<exists>r. FixedRR_MultiMode_custom_stoploss stoploss rr_ratio break_even_R custom_info
              pair trade current_time (Fin c) current_profit = Fin r
           \<and> e * (1 + fo + fc) \<le> c * (1 + r)"
  using assms
  by (auto simp: FixedRR_MultiMode_custom_stoploss_def Let_def intro!: be_price_le)

lemma SwingEMA_breakeven:
  assumes "lookup_init_sl custom_info pair (open_date_utc trade) = Some (Fin s)"
    and "open_rate trade = Fin e" and "fee_open trade = Fin fo" and "fee_close trade = Fin fc"
    and "s < e" and "0 < c" and "e + 0.7 * (e - s) \<le> c"
  shows "\<exists>r. SwingEMA_RSI_ATR_custom_stoploss stoploss rr_ratio custom_info
              pair trade current_time (Fin c) current_profit = Fin r
           \<and> e * (1 + fo + fc) \<le> c * (1 + r)"
  using assms
  by (auto simp: SwingEMA_RSI_ATR_custom_stoploss_def Let_def intro!: be_price_le)

lemma EdgeBreak_breakeven:
  assumes "lookup_init_sl custom_info pair (open_date_utc trade) = Some (Fin s)"
    and "open_rate trade = Fin e" and "fee_open trade = Fin fo" and "fee_close trade = Fin fc"
    and "s < e" and "0 < c" and "e + 0.7 * (e - s) \<le> c"
  shows "\<exists>r. EdgeBreakRetestV1_custom_stoploss stoploss rr_ratio custom_info
              pair trade current_time (Fin c) current_profit = Fin r
           \<and> e * (1 + fo + fc) \<le> c * (1 + r)"
  using assms
  by (auto simp: EdgeBreakRetestV1_custom_stoploss_def Let_def intro!: be_price_le)

text \<open>
  Claim C2. For a trade whose entry-time reference lookup succeeds (\<open>Some (Fin s)\<close>) with
  positive risk (\<open>s < e\<close>), at a positive rate at or above the breakeven trigger price
  (\<open>e + break_even_R * (e - s)\<close>, or \<open>e + 0.7 * (e - s)\<close> in SwingEMA_RSI_ATR and
  EdgeBreakRetestV1), the implied stop price \<open>c * (1 + r)\<close> is at least
  \<open>e * (1 + fee_open + fee_close)\<close>, in each of the four fixed risk:reward strategies.
\<close>

theorem breakeven_non_loss:
  assumes "lookup_open_sl_abs custom_info pair (open_date_utc trade) = Some (Fin s)"
    and "lookup_init_sl custom_info pair (open_date_utc trade) = Some (Fin s)"
    and "open_rate trade = Fin e" and "fee_open trade = Fin fo" and "fee_close trade = Fin fc"
    and "s < e" and "0 < c"
  shows "(e + break_even_R * (e - s) \<le> c \<longrightarrow>
            (\<exists>r. FixedRiskRewardLossImproved_custom_stoploss stoploss rr_ratio break_even_R
                   custom_info pair trade current_time (Fin c) current_profit = Fin r
                \<and> e * (1 + fo + fc) \<le> c * (1 + r)))
       \<and> (e + break_even_R * (e - s) \<le> c \<longrightarrow>
            (\<exists>r. FixedRR_MultiMode_custom_stoploss stoploss rr_ratio break_even_R
                   custom_info pair trade current_time (Fin c) current_profit = Fin r
                \<and> e * (1 + fo + fc) \<le> c * (1 + r)))
       \<and> (e + 0.7 * (e - s) \<le> c \<longrightarrow>
            (\<exists>r. SwingEMA_RSI_ATR_custom_stoploss stoploss rr_ratio
                   custom_info pair trade current_time (Fin c) current_profit = Fin r
                \<and> e * (1 + fo + fc) \<le> c * (1 + r)))
       \<and> (e + 0.7 * (e - s) \<le> c \<longrightarrow>
            (\<exists>r. EdgeBreakRetestV1_custom_stoploss stoploss rr_ratio
                   custom_info pair trade current_time (Fin c) current_profit = Fin r
                \<and> e * (1 + fo + fc) \<le> c * (1 + r)))"
  using FRRL_breakeven [OF assms(1,3,4,5,6,7)] MultiMode_breakeven [OF assms(1,3,4,5,6,7)]
    SwingEMA_breakeven [OF assms(2,3,4,5,6,7)] EdgeBreak_breakeven [OF assms(2,3,4,5,6,7)]
  by blast

theorem breakeven_non_loss_witness:
  "lookup_init_sl example_custom_info ''BTC/USDT'' (open_date_utc example_trade) = Some (Fin 98)
   \<and> SwingEMA_RSI_ATR_custom_stoploss SwingEMA_RSI_ATR_stoploss 2 example_custom_info
        ''BTC/USDT'' example_trade 30 (Fin 102) None = Fin (- (3 / 170))
   \<and> (100::real) * (1 + 0.001 + 0.001) \<le> 102 * (1 + - (3 / 170))"
proof -
  have l: "lookup_open_sl_abs example_custom_info ''BTC/USDT'' (open_date_utc example_trade) = Some (Fin 98)"
      "lookup_init_sl example_custom_info ''BTC/USDT'' (open_date_utc example_trade) = Some (Fin 98)"
    by (simp_all add: lookup_open_sl_abs_def lookup_init_sl_def example_custom_info_def
        example_trade_def loc_upto_def tail1_def)
  have t: "open_rate example_trade = Fin 100" "fee_open example_trade = Fin 0.001"
      "fee_close example_trade = Fin 0.001"
    by (simp_all add: example_trade_def)
  have n: "(98::real) < 100" "(0::real) < 102" by simp_all
  have trig: "(100::real) + 0.7 * (100 - 98) \<le> 102" by simp
  from breakeven_non_loss [OF l t n, where break_even_R = "4 / 5"
      and stoploss = SwingEMA_RSI_ATR_stoploss and rr_ratio = 2 and current_time = 30
      and current_profit = None] trig
  have "\<exists>r. SwingEMA_RSI_ATR_custom_stoploss SwingEMA_RSI_ATR_stoploss 2 example_custom_info
        ''BTC/USDT'' example_trade 30 (Fin 102) None = Fin r
        \<and> (100::real) * (1 + 0.001 + 0.001) \<le> 102 * (1 + r)"
    by blast
  moreover have "SwingEMA_RSI_ATR_custom_stoploss SwingEMA_RSI_ATR_stoploss 2 example_custom_info
        ''BTC/USDT'' example_trade 30 (Fin 102) None = Fin (- (3 / 170))"
    by (simp add: SwingEMA_RSI_ATR_custom_stoploss_def SwingEMA_RSI_ATR_stoploss_def
      example_custom_info_def example_trade_def lookup_init_sl_def loc_upto_def tail1_def Let_def)
  ultimately show ?thesis using l by auto
qed

section \<open>Tightening as the rate rises\<close>

text \<open>
  Within one stage the ratio \<open>k / current_rate - 1\<close> falls as the rate rises, so the ratios
  themselves are not monotone. What never falls is the stop price the ratio stands for:
  it is the largest of the reference, the candidates of the stages entered and the floor
  price, and a stage once entered stays entered at a higher rate.
\<close>

lemma price_ratio: "0 < c \<Longrightarrow> Fin c * (Fin 1 + (k / Fin c - Fin 1)) = k"
  by (cases k) (simp_all add: field_simps)

lemma price_pymax:
  "0 < c \<Longrightarrow> Fin c * (Fin 1 + pymax a b) = pymax (Fin c * (Fin 1 + a)) (Fin c * (Fin 1 + b))"
  by (cases a; cases b) (simp_all add: max_def)

lemma price_gate:
  "0 < c \<Longrightarrow> Fin c * (Fin 1 + (if g then pymax r (k / Fin c - Fin 1) else r))
     = (if g then pymax (Fin c * (Fin 1 + r)) k else Fin c * (Fin 1 + r))"
  by (simp add: price_pymax price_ratio)

lemma gate_mono:
  assumes "x \<le> y" and "c1 \<le> c2"
  shows "(if Fin c1 \<ge> t then pymax x k else x) \<le> (if Fin c2 \<ge> t then pymax y k else y)"
  using assms by (cases x; cases y; cases k; cases t) (auto simp: max_def)

lemma pymax_mono:
  assumes "x \<le> y" and "a \<le> b"
  shows "pymax x (Fin a) \<le> pymax y (Fin b)"
  using assms by (cases x; cases y) (auto simp: max_def)


lemma FRRL_price_mono:
  assumes "0 < c1" and "c1 \<le> c2" and "- 1 \<le> stoploss"
  shows "Fin c1 * (Fin 1 + FixedRiskRewardLossImproved_custom_stoploss stoploss rr_ratio break_even_R
              custom_info pair trade current_time (Fin c1) current_profit)
       \<le> Fin c2 * (Fin 1 + FixedRiskRewardLossImproved_custom_stoploss stoploss rr_ratio break_even_R
              custom_info pair trade current_time' (Fin c2) current_profit')"
proof -
  have c2: "0 < c2" using assms by simp
  have pos: "\<not> Fin c1 \<le> Fin 0" "\<not> Fin c2 \<le> Fin 0" using assms by simp_all
  have fp: "c1 * (1 + stoploss) \<le> c2 * (1 + stoploss)"
    using assms by (simp add: mult_right_mono)
  show ?thesis
  proof (cases "lookup_open_sl_abs custom_info pair (open_date_utc trade)")
    case None
    then show ?thesis using fp by (simp add: FixedRiskRewardLossImproved_custom_stoploss_def)
  next
    case (Some init)
    show ?thesis
    proof (cases "pymax (Fin 0) (open_rate trade - init) \<le> Fin 0")
      case True
      with Some show ?thesis using fp pos by (simp add: FixedRiskRewardLossImproved_custom_stoploss_def)
    next
      case False
      from risk_pos [OF False] obtain e s where es: "open_rate trade = Fin e" "init = Fin s" by blast
      have base: "init \<le> init" using es by simp
      show ?thesis
        unfolding FixedRiskRewardLossImproved_custom_stoploss_def Let_def Some option.case
        apply (simp only: pos False if_False price_pymax [OF assms(1)] price_pymax [OF c2]
            price_gate [OF assms(1)] price_gate [OF c2] price_ratio [OF assms(1)] price_ratio [OF c2]
            plus_pyfloat.simps times_pyfloat.simps)
        apply (intro pymax_mono gate_mono base assms fp)
        done
    qed
  qed
qed

lemma MultiMode_price_mono:
  assumes "0 < c1" and "c1 \<le> c2" and "- 1 \<le> stoploss"
  shows "Fin c1 * (Fin 1 + FixedRR_MultiMode_custom_stoploss stoploss rr_ratio break_even_R
              custom_info pair trade current_time (Fin c1) current_profit)
       \<le> Fin c2 * (Fin 1 + FixedRR_MultiMode_custom_stoploss stoploss rr_ratio break_even_R
              custom_info pair trade current_time' (Fin c2) current_profit')"
proof -
  have c2: "0 < c2" using assms by simp
  have pos: "\<not> Fin c1 \<le> Fin 0" "\<not> Fin c2 \<le> Fin 0" using assms by simp_all
  have fp: "c1 * (1 + stoploss) \<le> c2 * (1 + stoploss)"
    using assms by (simp add: mult_right_mono)
  show ?thesis
  proof (cases "lookup_open_sl_abs custom_info pair (open_date_utc trade)")
    case None
    then show ?thesis using fp by (simp add: FixedRR_MultiMode_custom_stoploss_def)
  next
    case (Some init)
    show ?thesis
    proof (cases "pymax (Fin 0) (open_rate trade - init) \<le> Fin 0")
      case True
      with Some show ?thesis using fp pos by (simp add: FixedRR_MultiMode_custom_stoploss_def)
    next
      case False
      from risk_pos [OF False] obtain e s where es: "open_rate trade = Fin e" "init = Fin s" by blast
      have base: "init \<le> init" using es by simp
      show ?thesis
        unfolding FixedRR_MultiMode_custom_stoploss_def Let_def Some option.case
        apply (simp only: pos False if_False price_pymax [OF assms(1)] price_pymax [OF c2]
            price_gate [OF assms(1)] price_gate [OF c2] price_ratio [OF assms(1)] price_ratio [OF c2]
            plus_pyfloat.simps times_pyfloat.simps)
        apply (intro pymax_mono gate_mono base assms fp)
        done
    qed
  qed
qed

lemma SwingEMA_price_mono:
  assumes "0 < c1" and "c1 \<le> c2" and "- 1 \<le> stoploss"
  shows "Fin c1 * (Fin 1 + SwingEMA_RSI_ATR_custom_stoploss stoploss rr_ratio
              custom_info pair trade current_time (Fin c1) current_profit)
       \<le> Fin c2 * (Fin 1 + SwingEMA_RSI_ATR_custom_stoploss stoploss rr_ratio
              custom_info pair trade current_time' (Fin c2) current_profit')"
proof -
  have c2: "0 < c2" using assms by simp
  have pos: "\<not> Fin c1 \<le> Fin 0" "\<not> Fin c2 \<le> Fin 0" using assms by simp_all
  have fp: "c1 * (1 + stoploss) \<le> c2 * (1 + stoploss)"
    using assms by (simp add: mult_right_mono)
  show ?thesis
  proof (cases "lookup_init_sl custom_info pair (open_date_utc trade)")
    case None
    then show ?thesis using fp by (simp add: SwingEMA_RSI_ATR_custom_stoploss_def)
  next
    case (Some init)
    show ?thesis
    proof (cases "pymax (Fin 0) (open_rate trade - init) \<le> Fin 0")
      case True
      with Some show ?thesis using fp pos by (simp add: SwingEMA_RSI_ATR_custom_stoploss_def)
    next
      case False
      from risk_pos [OF False] obtain e s where es: "open_rate trade = Fin e" "init = Fin s" by blast
      have base: "init \<le> init" using es by simp
      show ?thesis
        unfolding SwingEMA_RSI_ATR_custom_stoploss_def Let_def Some option.case
        apply (simp only: pos False if_False price_pymax [OF assms(1)] price_pymax [OF c2]
            price_gate [OF assms(1)] price_gate [OF c2] price_ratio [OF assms(1)] price_ratio [OF c2]
            plus_pyfloat.simps times_pyfloat.simps)
        apply (intro pymax_mono gate_mono base assms fp)
        done
    qed
  qed
qed

lemma EdgeBreak_price_mono:
  assumes "0 < c1" and "c1 \<le> c2" and "- 1 \<le> stoploss"
  shows "Fin c1 * (Fin 1 + EdgeBreakRetestV1_custom_stoploss stoploss rr_ratio
              custom_info pair trade current_time (Fin c1) current_profit)
       \<le> Fin c2 * (Fin 1 + EdgeBreakRetestV1_custom_stoploss stoploss rr_ratio
              custom_info pair trade current_time' (Fin c2) current_profit')"
proof -
  have c2: "0 < c2" using assms by simp
  have pos: "\<not> Fin c1 \<le> Fin 0" "\<not> Fin c2 \<le> Fin 0" using assms by simp_all
  have fp: "c1 * (1 + stoploss) \<le> c2 * (1 + stoploss)"
    using assms by (simp add: mult_right_mono)
  show ?thesis
  proof (cases "lookup_init_sl custom_info pair (open_date_utc trade)")
    case None
    then show ?thesis using fp by (simp add: EdgeBreakRetestV1_custom_stoploss_def)
  next
    case (Some init)
    show ?thesis
    proof (cases "pymax (Fin 0) (open_rate trade - init) \<le> Fin 0")
      case True
      with Some show ?thesis using fp pos by (simp add: EdgeBreakRetestV1_custom_stoploss_def)
    next
      case False
      from risk_pos [OF False] obtain e s where es: "open_rate trade = Fin e" "init = Fin s" by blast
      have base: "init \<le> init" using es by simp
      show ?thesis
        unfolding EdgeBreakRetestV1_custom_stoploss_def Let_def Some option.case
        apply (simp only: pos False if_False price_pymax [OF assms(1)] price_pymax [OF c2]
            price_gate [OF assms(1)] price_gate [OF c2] price_ratio [OF assms(1)] price_ratio [OF c2]
            plus_pyfloat.simps times_pyfloat.simps)
        apply (intro pymax_mono gate_mono base assms fp)
        done
    qed
  qed
qed

text \<open>
  Claim C3, as amended. For a fixed trade and store, positive rates \<open>c1 \<le> c2\<close> and a floor
  of at least -1, the implied stop price \<open>current_rate * (1 + ratio)\<close> at \<open>c2\<close> is at
  least the one at \<open>c1\<close>, in each of the four fixed risk:reward strategies.
\<close>

theorem stop_price_monotone:
  assumes "0 < c1" and "c1 \<le> c2" and "- 1 \<le> stoploss"
  shows "Fin c1 * (Fin 1 + FixedRiskRewardLossImproved_custom_stoploss stoploss rr_ratio break_even_R
              custom_info pair trade current_time (Fin c1) current_profit)
       \<le> Fin c2 * (Fin 1 + FixedRiskRewardLossImproved_custom_stoploss stoploss rr_ratio break_even_R
              custom_info pair trade current_time' (Fin c2) current_profit')
     \<and> Fin c1 * (Fin 1 + FixedRR_MultiMode_custom_stoploss stoploss rr_ratio break_even_R
              custom_info pair trade current_time (Fin c1) current_profit)
       \<le> Fin c2 * (Fin 1 + FixedRR_MultiMode_custom_stoploss stoploss rr_ratio break_even_R
              custom_info pair trade current_time' (Fin c2) current_profit')
     \<and> Fin c1 * (Fin 1 + SwingEMA_RSI_ATR_custom_stoploss stoploss rr_ratio
              custom_info pair trade current_time (Fin c1) current_profit)
       \<le> Fin c2 * (Fin 1 + SwingEMA_RSI_ATR_custom_stoploss stoploss rr_ratio
              custom_info pair trade current_time' (Fin c2) current_profit')
     \<and> Fin c1 * (Fin 1 + EdgeBreakRetestV1_custom_stoploss stoploss rr_ratio
              custom_info pair trade current_time (Fin c1) current_profit)
       \<le> Fin c2 * (Fin 1 + EdgeBreakRetestV1_custom_stoploss stoploss rr_ratio
              custom_info pair trade current_time' (Fin c2) current_profit')"
  by (intro conjI FRRL_price_mono MultiMode_price_mono SwingEMA_price_mono EdgeBreak_price_mono assms)

theorem stop_price_monotone_witness:
  "Fin 102 * (Fin 1 + SwingEMA_RSI_ATR_custom_stoploss SwingEMA_RSI_ATR_stoploss 2
        example_custom_info ''BTC/USDT'' example_trade 30 (Fin 102) None)
   \<le> Fin 103 * (Fin 1 + SwingEMA_RSI_ATR_custom_stoploss SwingEMA_RSI_ATR_stoploss 2
        example_custom_info ''BTC/USDT'' example_trade 31 (Fin 103) None)
   \<and> Fin 102 * (Fin 1 + SwingEMA_RSI_ATR_custom_stoploss SwingEMA_RSI_ATR_stoploss 2
        example_custom_info ''BTC/USDT'' example_trade 30 (Fin 102) None) = Fin 100.2
   \<and> Fin 103 * (Fin 1 + SwingEMA_RSI_ATR_custom_stoploss SwingEMA_RSI_ATR_stoploss 2
        example_custom_info ''BTC/USDT'' example_trade 31 (Fin 103) None) = Fin 101"
proof -
  have h: "(0::real) < 102" "(102::real) \<le> 103" "- 1 \<le> SwingEMA_RSI_ATR_stoploss"
    by (simp_all add: SwingEMA_RSI_ATR_stoploss_def)
  have v: "SwingEMA_RSI_ATR_custom_stoploss SwingEMA_RSI_ATR_stoploss 2 example_custom_info
             ''BTC/USDT'' example_trade 30 (Fin 102) None = Fin (- (3 / 170))"
      "SwingEMA_RSI_ATR_custom_stoploss SwingEMA_RSI_ATR_stoploss 2 example_custom_info
             ''BTC/USDT'' example_trade 31 (Fin 103) None = Fin (- (2 / 103))"
    by (simp_all add: SwingEMA_RSI_ATR_custom_stoploss_def SwingEMA_RSI_ATR_stoploss_def
      example_custom_info_def example_trade_def lookup_init_sl_def loc_upto_def tail1_def Let_def)
  from stop_price_monotone [OF h, where rr_ratio = 2 and break_even_R = "4 / 5"
      and custom_info = example_custom_info and pair = "''BTC/USDT''" and trade = example_trade
      and current_time = 30 and current_profit = None and current_time' = 31
      and current_profit' = None] v
  show ?thesis by simp
qed

text \<open>
  The claim as stated, that the returned ratios are non-decreasing, fails: on the scenario
  of the specification the ratio at rate 103 (the lock stage, stop price 101) is smaller
  than the ratio at rate 102 (the breakeven stage, stop price 100.2).
\<close>

theorem ratio_monotone_counterexample:
  "SwingEMA_RSI_ATR_custom_stoploss SwingEMA_RSI_ATR_stoploss 2 example_custom_info ''BTC/USDT''
       example_trade 30 (Fin 102) None = Fin (- (3 / 170))
   \<and> SwingEMA_RSI_ATR_custom_stoploss SwingEMA_RSI_ATR_stoploss 2 example_custom_info ''BTC/USDT''
       example_trade 30 (Fin 103) None = Fin (- (2 / 103))
   \<and> SwingEMA_RSI_ATR_custom_stoploss SwingEMA_RSI_ATR_stoploss 2 example_custom_info ''BTC/USDT''
       example_trade 30 (Fin 103) None
     < SwingEMA_RSI_ATR_custom_stoploss SwingEMA_RSI_ATR_stoploss 2 example_custom_info ''BTC/USDT''
       example_trade 30 (Fin 102) None"
  by (simp add: SwingEMA_RSI_ATR_custom_stoploss_def SwingEMA_RSI_ATR_stoploss_def
      example_custom_info_def example_trade_def lookup_init_sl_def loc_upto_def tail1_def Let_def)

section \<open>A pair without reference data\<close>

lemma lookup_absent:
  assumes "map_of custom_info pair = None \<or> map_of custom_info pair = Some []"
  shows "lookup_open_sl_abs custom_info pair t = None" "lookup_init_sl custom_info pair t = None"
  using assms by (auto simp: lookup_open_sl_abs_def lookup_init_sl_def)

lemma atr_at_absent:
  assumes "map_of cache pair = None \<or> map_of cache pair = Some []"
  shows "atr_at method_kw cache pair t b = Fin 0"
  using assms by (auto simp: atr_at_def)

lemma pymax_idem_floor: "pymax (pymax (Fin s) b) (Fin s) = pymax (Fin s) b"
  by (cases b) simp_all

text \<open>
  Claim C4, as amended. When the pair has no reference frame or an empty one, the four
  fixed risk:reward strategies and SwingATRBreakevenV2 return exactly the floor
  \<^verbatim>\<open>stoploss\<close>, for every trade, time, rate and profit. SwingHighToSkyV2 returns the floor
  unless the profit has reached \<^verbatim>\<open>be_trigger\<close>; then its breakeven stage still applies and
  the result is the larger of the floor and the breakeven ratio. CustomStoplossWithPSAR
  returns 1 for a pair that is not cached.
\<close>

theorem missing_reference_fallback:
  assumes sl: "map_of custom_info pair = None \<or> map_of custom_info pair = Some []"
    and atr: "map_of atr_info pair = None \<or> map_of atr_info pair = Some []"
  shows "FixedRiskRewardLossImproved_custom_stoploss stoploss rr_ratio break_even_R custom_info
            pair trade current_time current_rate current_profit = Fin stoploss
       \<and> FixedRR_MultiMode_custom_stoploss stoploss rr_ratio break_even_R custom_info
            pair trade current_time current_rate current_profit = Fin stoploss
       \<and> SwingEMA_RSI_ATR_custom_stoploss stoploss rr_ratio custom_info
            pair trade current_time current_rate current_profit = Fin stoploss
       \<and> EdgeBreakRetestV1_custom_stoploss stoploss rr_ratio custom_info
            pair trade current_time current_rate current_profit = Fin stoploss
       \<and> SwingATRBreakevenV2_custom_stoploss method_kw stoploss atr_init_mult atr_trail_mult
            breakeven_trigger trail_trigger max_init_sl max_trail_sl atr_info pair trade
            current_time current_rate current_profit = Inr (Fin stoploss)
       \<and> SwingHighToSkyV2_custom_stoploss method_kw stoploss atr_cap_mult max_atr_stop be_trigger
            trail_trigger' trail_atr_mult max_trail atr_info pair trade current_time
            current_rate current_profit
          = (if profit_ge current_profit be_trigger
             then pymax (Fin stoploss)
                    (open_rate trade * (Fin 1 + fee_open trade + fee_close trade)
                       / pymax current_rate (Fin (1 / 10 ^ 9)) - Fin 1)
             else Fin stoploss)
       \<and> (map_of psar_info pair = None \<longrightarrow>
            CustomStoplossWithPSAR_custom_stoploss psar_info dp pair psar_trade current_time
              current_rate current_profit = Inr (Fin 1))"
proof -
  have satr: "SwingATRBreakevenV2_custom_stoploss method_kw stoploss atr_init_mult atr_trail_mult
            breakeven_trigger trail_trigger max_init_sl max_trail_sl atr_info pair trade
            current_time current_rate current_profit = Inr (Fin stoploss)"
    using atr by (auto simp: SwingATRBreakevenV2_custom_stoploss_def)
  have shts: "SwingHighToSkyV2_custom_stoploss method_kw stoploss atr_cap_mult max_atr_stop be_trigger
            trail_trigger' trail_atr_mult max_trail atr_info pair trade current_time
            current_rate current_profit
          = (if profit_ge current_profit be_trigger
             then pymax (Fin stoploss)
                    (open_rate trade * (Fin 1 + fee_open trade + fee_close trade)
                       / pymax current_rate (Fin (1 / 10 ^ 9)) - Fin 1)
             else Fin stoploss)"
    by (simp add: SwingHighToSkyV2_custom_stoploss_def atr_at_absent [OF atr] Let_def
        pymax_idem_floor)
  have psar: "map_of psar_info pair = None \<longrightarrow>
            CustomStoplossWithPSAR_custom_stoploss psar_info dp pair psar_trade current_time
              current_rate current_profit = Inr (Fin 1)"
    by (simp add: CustomStoplossWithPSAR_custom_stoploss_def Let_def)
  show ?thesis
    using satr shts psar
    by (simp add: FixedRiskRewardLossImproved_custom_stoploss_def
        FixedRR_MultiMode_custom_stoploss_def SwingEMA_RSI_ATR_custom_stoploss_def
        EdgeBreakRetestV1_custom_stoploss_def lookup_absent [OF sl])
qed

theorem missing_reference_fallback_witness:
  "FixedRR_MultiMode_custom_stoploss (- 0.08) 1.2 0.6 [] ''BTC/USDT'' example_trade 30 (Fin 102)
       (Some (Fin 0.02)) = Fin (- 0.08)
   \<and> SwingATRBreakevenV2_custom_stoploss True (- 0.10) 1.5 1.0 0.015 0.03 0.035 0.05
       [(''BTC/USDT'', [])] ''BTC/USDT'' example_trade 30 (Fin 102) (Some (Fin 0.02))
       = Inr (Fin (- 0.10))
   \<and> SwingHighToSkyV2_custom_stoploss True SwingHighToSkyV2_stoploss 1.8 0.045 0.015 0.035 1.0 0.05
       [(''BTC/USDT'', [])] ''BTC/USDT'' example_trade 30 (Fin 102) None
       = Fin SwingHighToSkyV2_stoploss
   \<and> CustomStoplossWithPSAR_custom_stoploss [] (Some example_psar_dp) ''BTC/USDT''
       (Some example_trade) 30 (Fin 102) None = Inr (Fin 1)"
proof -
  have a: "map_of ([] :: sl_frame pydict) ''BTC/USDT'' = None \<or> map_of ([] :: sl_frame pydict) ''BTC/USDT'' = Some []"
    by simp
  have b: "map_of [(''BTC/USDT'', [])] ''BTC/USDT'' = None
         \<or> map_of [(''BTC/USDT'', ([] :: atr_frame))] ''BTC/USDT'' = Some []"
    by simp
  have n: "map_of ([] :: sl_frame pydict) ''BTC/USDT'' = None" by simp
  have m1: "FixedRR_MultiMode_custom_stoploss (- 0.08) 1.2 0.6 [] ''BTC/USDT'' example_trade 30 (Fin 102)
       (Some (Fin 0.02)) = Fin (- 0.08)"
    using missing_reference_fallback [OF a b, where stoploss = "- 0.08" and rr_ratio = "1.2"
        and break_even_R = "0.6" and trade = example_trade and current_time = 30
        and current_rate = "Fin 102" and current_profit = "Some (Fin 0.02)"]
    by simp
  have m2: "SwingATRBreakevenV2_custom_stoploss True (- 0.10) 1.5 1.0 0.015 0.03 0.035 0.05
       [(''BTC/USDT'', [])] ''BTC/USDT'' example_trade 30 (Fin 102) (Some (Fin 0.02))
       = Inr (Fin (- 0.10))"
    using missing_reference_fallback [OF a b, where method_kw = True and stoploss = "- 0.10"
        and trade = example_trade
        and current_time = 30 and current_rate = "Fin 102" and current_profit = "Some (Fin 0.02)"]
    by simp
  have m3: "SwingHighToSkyV2_custom_stoploss True SwingHighToSkyV2_stoploss 1.8 0.045 0.015 0.035 1.0 0.05
       [(''BTC/USDT'', [])] ''BTC/USDT'' example_trade 30 (Fin 102) None
       = Fin SwingHighToSkyV2_stoploss"
    using missing_reference_fallback [OF a b, where method_kw = True
        and stoploss = SwingHighToSkyV2_stoploss
        and trade = example_trade and be_trigger = "0.015"
        and current_time = 30 and current_rate = "Fin 102" and current_profit = None]
    by (simp add: profit_ge_def)
  have m4: "CustomStoplossWithPSAR_custom_stoploss [] (Some example_psar_dp) ''BTC/USDT''
       (Some example_trade) 30 (Fin 102) None = Inr (Fin 1)"
    using missing_reference_fallback [OF a b, where psar_info = "[]"] n
    by simp
  show ?thesis using m1 m2 m3 m4 by simp
qed

text \<open>
  The claim as stated fails for two strategies: with an empty store
  CustomStoplossWithPSAR returns 1, not its floor -0.08, and SwingHighToSkyV2 at a profit
  of 2% returns the breakeven ratio, not its floor -0.34338.
\<close>

theorem missing_reference_counterexample:
  "CustomStoplossWithPSAR_custom_stoploss [] (Some example_psar_dp) ''BTC/USDT''
       (Some example_trade) 30 (Fin 102) None = Inr (Fin 1)
   \<and> Fin 1 \<noteq> Fin CustomStoplossWithPSAR_stoploss
   \<and> SwingHighToSkyV2_custom_stoploss True SwingHighToSkyV2_stoploss 1.8 0.045 0.015 0.035 1.0 0.05
       [] ''BTC/USDT'' example_trade 30 (Fin 102) (Some (Fin 0.02)) = Fin (- (3 / 170))
   \<and> Fin (- (3 / 170)) \<noteq> Fin SwingHighToSkyV2_stoploss"
  by (simp add: CustomStoplossWithPSAR_custom_stoploss_def CustomStoplossWithPSAR_stoploss_def
      SwingHighToSkyV2_custom_stoploss_def SwingHighToSkyV2_stoploss_def atr_at_def
      example_trade_def profit_ge_def Let_def)

section \<open>A rate that is not positive\<close>

text \<open>
  Claim C7, as amended. At a rate of zero or below, the four fixed risk:reward strategies
  return the floor \<^verbatim>\<open>stoploss\<close> whatever the other inputs are. The other strategies have no
  such return: CustomStoplossWithPSAR returns 1 (when the analyzed dataframe has a last
  row), Sma20RsiBbAtrStrategy does not read the rate at all, and SwingHighToSkyV2 and
  SwingATRBreakevenV2 return what their stages give (SwingHighToSkyV2 never less than the
  floor).
\<close>

theorem nonpositive_rate_guard:
  assumes "current_rate \<le> Fin 0"
  shows "FixedRiskRewardLossImproved_custom_stoploss stoploss rr_ratio break_even_R custom_info
            pair trade current_time current_rate current_profit = Fin stoploss
       \<and> FixedRR_MultiMode_custom_stoploss stoploss rr_ratio break_even_R custom_info
            pair trade current_time current_rate current_profit = Fin stoploss
       \<and> SwingEMA_RSI_ATR_custom_stoploss stoploss rr_ratio custom_info
            pair trade current_time current_rate current_profit = Fin stoploss
       \<and> EdgeBreakRetestV1_custom_stoploss stoploss rr_ratio custom_info
            pair trade current_time current_rate current_profit = Fin stoploss
       \<and> (psar_dp pair \<noteq> [] \<longrightarrow>
            CustomStoplossWithPSAR_custom_stoploss psar_info (Some psar_dp) pair psar_trade
              current_time current_rate current_profit = Inr (Fin 1))
       \<and> Sma20RsiBbAtrStrategy_custom_stoploss stoploss sma_dp pair trade current_time
            current_rate current_profit
          = Sma20RsiBbAtrStrategy_custom_stoploss stoploss sma_dp pair trade current_time
              other_rate current_profit
       \<and> Fin stoploss \<le> SwingHighToSkyV2_custom_stoploss method_kw stoploss atr_cap_mult max_atr_stop
            be_trigger trail_trigger trail_atr_mult max_trail atr_info pair trade current_time
            current_rate current_profit
       \<and> (\<exists>r. SwingATRBreakevenV2_custom_stoploss method_kw stoploss atr_init_mult atr_trail_mult
              breakeven_trigger trail_trigger' max_init_sl max_trail_sl atr_info pair trade
              current_time current_rate current_profit = Inr r)"
proof -
  from assms obtain c where c: "current_rate = Fin c" "c \<le> 0"
    by (cases current_rate) auto
  then have ng: "\<not> Fin 0 < current_rate" by simp
  have psar: "psar_dp pair \<noteq> [] \<longrightarrow>
            CustomStoplossWithPSAR_custom_stoploss psar_info (Some psar_dp) pair psar_trade
              current_time current_rate current_profit = Inr (Fin 1)"
    using ng
    by (simp add: CustomStoplossWithPSAR_custom_stoploss_def iloc_last_def Let_def
        split: option.split)
  have sma: "Sma20RsiBbAtrStrategy_custom_stoploss stoploss sma_dp pair trade current_time
            current_rate current_profit
          = Sma20RsiBbAtrStrategy_custom_stoploss stoploss sma_dp pair trade current_time
              other_rate current_profit"
    by (simp add: Sma20RsiBbAtrStrategy_custom_stoploss_def)
  show ?thesis
    using psar sma assms SHTS_floor SATR_total
    by (simp add: FixedRiskRewardLossImproved_custom_stoploss_def
        FixedRR_MultiMode_custom_stoploss_def SwingEMA_RSI_ATR_custom_stoploss_def
        EdgeBreakRetestV1_custom_stoploss_def split: option.split)
qed

theorem nonpositive_rate_guard_witness:
  "FixedRiskRewardLossImproved_custom_stoploss (- 0.18) 2 0.8 example_custom_info
       ''BTC/USDT'' example_trade 30 (Fin 0) None = Fin (- 0.18)
   \<and> SwingEMA_RSI_ATR_custom_stoploss (- 0.18) 2 example_custom_info
       ''BTC/USDT'' example_trade 30 (Fin 0) None = Fin (- 0.18)
   \<and> CustomStoplossWithPSAR_custom_stoploss example_custom_info (Some example_psar_dp)
       ''BTC/USDT'' (Some example_trade) 30 (Fin 0) None = Inr (Fin 1)"
proof -
  have h: "Fin 0 \<le> Fin 0" by simp
  have d: "example_psar_dp ''BTC/USDT'' \<noteq> []" by (simp add: example_psar_dp_def)
  from nonpositive_rate_guard [OF h, where stoploss = "- 0.18" and rr_ratio = 2
      and break_even_R = "0.8" and custom_info = example_custom_info and pair = "''BTC/USDT''"
      and trade = example_trade and current_time = 30 and current_profit = None
      and psar_dp = example_psar_dp and psar_info = example_custom_info
      and psar_trade = "Some example_trade"] d
  show ?thesis by simp
qed

text \<open>
  The claim as stated fails for the other strategies: at rate 0, Sma20RsiBbAtrStrategy
  returns its ATR-based value -0.012 (floor -0.10), SwingATRBreakevenV2 its initial stop
  (-0.03 where \<^verbatim>\<open>get_loc\<close> accepts the \<^verbatim>\<open>method\<close> keyword, -0.035 where it does not; floor
  -0.10), and CustomStoplossWithPSAR returns 1.
\<close>

theorem nonpositive_rate_counterexample:
  "Sma20RsiBbAtrStrategy_custom_stoploss Sma20RsiBbAtrStrategy_stoploss (Some example_sma_dp)
       ''BTC/USDT'' example_trade 30 (Fin 0) None = Inr (Fin (- 0.012))
   \<and> Fin (- 0.012) \<noteq> Fin Sma20RsiBbAtrStrategy_stoploss
   \<and> SwingATRBreakevenV2_custom_stoploss True (- 0.10) 1.5 1.0 0.015 0.03 0.035 0.05
       example_cache ''BTC/USDT'' example_trade 30 (Fin 0) None = Inr (Fin (- 0.03))
   \<and> SwingATRBreakevenV2_custom_stoploss False (- 0.10) 1.5 1.0 0.015 0.03 0.035 0.05
       example_cache ''BTC/USDT'' example_trade 30 (Fin 0) None = Inr (Fin (- 0.035))
   \<and> CustomStoplossWithPSAR_custom_stoploss example_custom_info (Some example_psar_dp)
       ''BTC/USDT'' (Some example_trade) 30 (Fin 0) None = Inr (Fin 1)"
  by (simp add: Sma20RsiBbAtrStrategy_custom_stoploss_def Sma20RsiBbAtrStrategy_stoploss_def
      example_sma_dp_def iloc_last_def SwingATRBreakevenV2_custom_stoploss_def example_cache_def
      example_trade_def atr_ffill_or_last_def get_loc_ffill_def iloc_def iloc_last_def atr_col_def
      profit_ge_def CustomStoplossWithPSAR_custom_stoploss_def example_psar_dp_def
      example_custom_info_def Let_def)

section \<open>Returning without an exception\<close>

text \<open>
  The two callbacks that read the analyzed dataframe index its last row without testing
  for an empty frame. On a frame with a last row they return; the lemmas say what they
  return on the degenerate inputs.
\<close>

lemma Sma20_degenerate:
  assumes "dp pair \<noteq> []"
    and "row_atr (last (dp pair)) = None \<or> row_atr (last (dp pair)) = Some NaN
         \<or> \<not> row_close (last (dp pair)) > Fin 0"
  shows "Sma20RsiBbAtrStrategy_custom_stoploss stoploss (Some dp) pair trade current_time
           current_rate None = Inr (pymax (Fin (- 0.008)) (Fin stoploss))"
  using assms
  by (cases "row_close (last (dp pair))")
     (auto simp: Sma20RsiBbAtrStrategy_custom_stoploss_def iloc_last_def Let_def)

lemma PSAR_off:
  assumes "dp pair \<noteq> []"
    and "map_of info pair = None \<or> psar_trade = None \<or> last (dp pair) = None
         \<or> \<not> current_rate > Fin 0"
  shows "CustomStoplossWithPSAR_custom_stoploss info (Some dp) pair psar_trade current_time
           current_rate current_profit = Inr (Fin 1)"
  using assms
  by (auto simp: CustomStoplossWithPSAR_custom_stoploss_def iloc_last_def Let_def
      split: option.split)

lemma PSAR_total:
  assumes "dp pair \<noteq> []"
  shows "\<exists>r. CustomStoplossWithPSAR_custom_stoploss info (Some dp) pair psar_trade current_time
           current_rate current_profit = Inr r"
  using assms
  by (auto simp: CustomStoplossWithPSAR_custom_stoploss_def iloc_last_def Let_def
      split: option.split)

text \<open>
  Claim C6, as amended. Whenever the analyzed dataframe has a last row,
  Sma20RsiBbAtrStrategy and CustomStoplossWithPSAR return a value and raise nothing, for
  not-a-number indicator values and for zero or negative rates as well, and
  SwingATRBreakevenV2 returns for every input. The degenerate inputs do not lead to the
  floor: with a missing or not-a-number ATR, or a close that is not positive,
  Sma20RsiBbAtrStrategy (without profit) returns the larger of -0.008 and the floor, and
  its result is never below the floor; CustomStoplossWithPSAR returns 1 when the pair is
  not cached, the trade is unset, the last row has no SAR value or the rate is not
  positive.
\<close>

theorem returns_on_nonempty_frame:
  assumes sma_df: "sma_dp pair \<noteq> []" and psar_df: "psar_dp pair \<noteq> []"
  shows "(\<exists>r. Sma20RsiBbAtrStrategy_custom_stoploss stoploss (Some sma_dp) pair trade
              current_time current_rate current_profit = Inr r \<and> Fin stoploss \<le> r)
       \<and> ((row_atr (last (sma_dp pair)) = None \<or> row_atr (last (sma_dp pair)) = Some NaN
            \<or> \<not> row_close (last (sma_dp pair)) > Fin 0) \<longrightarrow>
           Sma20RsiBbAtrStrategy_custom_stoploss stoploss (Some sma_dp) pair trade current_time
             current_rate None = Inr (pymax (Fin (- 0.008)) (Fin stoploss)))
       \<and> (\<exists>r. CustomStoplossWithPSAR_custom_stoploss psar_info (Some psar_dp) pair psar_trade
              current_time current_rate current_profit = Inr r)
       \<and> ((map_of psar_info pair = None \<or> psar_trade = None \<or> last (psar_dp pair) = None
            \<or> \<not> current_rate > Fin 0) \<longrightarrow>
           CustomStoplossWithPSAR_custom_stoploss psar_info (Some psar_dp) pair psar_trade
             current_time current_rate current_profit = Inr (Fin 1))
       \<and> (\<exists>r. SwingATRBreakevenV2_custom_stoploss method_kw stoploss atr_init_mult atr_trail_mult
              breakeven_trigger trail_trigger max_init_sl max_trail_sl atr_info pair trade
              current_time current_rate current_profit = Inr r)"
proof (intro conjI impI)
  show "\<exists>r. Sma20RsiBbAtrStrategy_custom_stoploss stoploss (Some sma_dp) pair trade
              current_time current_rate current_profit = Inr r \<and> Fin stoploss \<le> r"
    by (rule Sma20_floor [where dp = sma_dp and pair = pair, OF sma_df])
  show "Sma20RsiBbAtrStrategy_custom_stoploss stoploss (Some sma_dp) pair trade current_time
             current_rate None = Inr (pymax (Fin (- 0.008)) (Fin stoploss))"
    if "row_atr (last (sma_dp pair)) = None \<or> row_atr (last (sma_dp pair)) = Some NaN
            \<or> \<not> row_close (last (sma_dp pair)) > Fin 0"
    using that by (rule Sma20_degenerate [where dp = sma_dp and pair = pair, OF sma_df])
  show "\<exists>r. CustomStoplossWithPSAR_custom_stoploss psar_info (Some psar_dp) pair psar_trade
              current_time current_rate current_profit = Inr r"
    by (rule PSAR_total [where dp = psar_dp and pair = pair, OF psar_df])
  show "CustomStoplossWithPSAR_custom_stoploss psar_info (Some psar_dp) pair psar_trade
             current_time current_rate current_profit = Inr (Fin 1)"
    if "map_of psar_info pair = None \<or> psar_trade = None \<or> last (psar_dp pair) = None
            \<or> \<not> current_rate > Fin 0"
    using that by (rule PSAR_off [where dp = psar_dp and pair = pair, OF psar_df])
  show "\<exists>r. SwingATRBreakevenV2_custom_stoploss method_kw stoploss atr_init_mult atr_trail_mult
              breakeven_trigger trail_trigger max_init_sl max_trail_sl atr_info pair trade
              current_time current_rate current_profit = Inr r"
    by (rule SATR_total)
qed

theorem returns_on_nonempty_frame_witness:
  "Sma20RsiBbAtrStrategy_custom_stoploss Sma20RsiBbAtrStrategy_stoploss (Some nan_sma_dp)
       ''BTC/USDT'' example_trade 30 (Fin 0) None = Inr (Fin (- 0.008))
   \<and> CustomStoplossWithPSAR_custom_stoploss example_custom_info (Some example_psar_dp)
       ''BTC/USDT'' (Some example_trade) 30 (Fin (- 5)) None = Inr (Fin 1)"
proof -
  have a: "nan_sma_dp ''BTC/USDT'' \<noteq> []" by (simp add: nan_sma_dp_def)
  have b: "example_psar_dp ''BTC/USDT'' \<noteq> []" by (simp add: example_psar_dp_def)
  have c: "row_atr (last (nan_sma_dp ''BTC/USDT'')) = Some NaN" by (simp add: nan_sma_dp_def)
  have d: "\<not> Fin (- 5) > Fin 0" by simp
  from returns_on_nonempty_frame [where sma_dp = nan_sma_dp and psar_dp = example_psar_dp
      and pair = "''BTC/USDT''", OF a b, where stoploss = Sma20RsiBbAtrStrategy_stoploss
      and trade = example_trade and current_time = 30 and current_rate = "Fin 0"
      and psar_info = example_custom_info] c
  have s: "Sma20RsiBbAtrStrategy_custom_stoploss Sma20RsiBbAtrStrategy_stoploss (Some nan_sma_dp)
       ''BTC/USDT'' example_trade 30 (Fin 0) None
       = Inr (pymax (Fin (- 0.008)) (Fin Sma20RsiBbAtrStrategy_stoploss))"
    by blast
  from returns_on_nonempty_frame [where sma_dp = nan_sma_dp and psar_dp = example_psar_dp
      and pair = "''BTC/USDT''", OF a b, where current_rate = "Fin (- 5)"
      and psar_info = example_custom_info and psar_trade = "Some example_trade"
      and current_time = 30 and current_profit = None] d
  have p: "CustomStoplossWithPSAR_custom_stoploss example_custom_info (Some example_psar_dp)
       ''BTC/USDT'' (Some example_trade) 30 (Fin (- 5)) None = Inr (Fin 1)"
    by blast
  show ?thesis using s p by (simp add: Sma20RsiBbAtrStrategy_stoploss_def)
qed

text \<open>
  The claim as stated fails. For a pair the data provider has no frame for,
  \<^verbatim>\<open>df.iloc[-1]\<close> raises IndexError in both callbacks; and where a value is returned on
  degenerate input it is not the floor: 1 for an uncached pair in CustomStoplossWithPSAR,
  -0.008 for a not-a-number ATR in Sma20RsiBbAtrStrategy (floor -0.10).
\<close>

theorem never_raise_counterexample:
  "Sma20RsiBbAtrStrategy_custom_stoploss Sma20RsiBbAtrStrategy_stoploss (Some example_sma_dp)
       ''ETH/USDT'' example_trade 30 (Fin 100) None = Inl IndexError
   \<and> CustomStoplossWithPSAR_custom_stoploss [(''ETH/USDT'', [])] (Some example_psar_dp)
       ''ETH/USDT'' (Some example_trade) 30 (Fin 100) None = Inl IndexError
   \<and> CustomStoplossWithPSAR_custom_stoploss [] (Some example_psar_dp)
       ''BTC/USDT'' (Some example_trade) 30 (Fin 100) None = Inr (Fin 1)
   \<and> Sma20RsiBbAtrStrategy_custom_stoploss Sma20RsiBbAtrStrategy_stoploss (Some nan_sma_dp)
       ''BTC/USDT'' example_trade 30 (Fin 100) None = Inr (Fin (- 0.008))"
  by (simp add: Sma20RsiBbAtrStrategy_custom_stoploss_def Sma20RsiBbAtrStrategy_stoploss_def
      example_sma_dp_def nan_sma_dp_def iloc_last_def CustomStoplossWithPSAR_custom_stoploss_def
      example_psar_dp_def Let_def)

section \<open>The range of the PSAR stop\<close>

text \<open>
  Claim C10. CustomStoplossWithPSAR is documented to clamp its result to [-0.08, -0.02],
  and returns 1 when nothing is computed. The lemma \<open>PSAR_range\<close> above shows this for a
  frame with a last row whose SAR value is a number. The code tests the SAR value against
  \<^verbatim>\<open>None\<close> only: a last row whose SAR value is not-a-number passes the test, and both
  \<^verbatim>\<open>min\<close> and \<^verbatim>\<open>max\<close> of the clamp return their not-a-number first argument. The
  evaluation below is that input: the result is neither 1 nor in the interval.
\<close>

theorem psar_nan_sar_escapes_clamp:
  "CustomStoplossWithPSAR_custom_stoploss example_custom_info (Some nan_psar_dp) ''BTC/USDT''
       (Some example_trade) 30 (Fin 100) None = Inr NaN"
  by (simp add: CustomStoplossWithPSAR_custom_stoploss_def nan_psar_dp_def
      example_custom_info_def iloc_last_def Let_def)

section \<open>The tag of the last matching entry rule\<close>

lemma loc_assign_nth:
  assumes "i < length cond" and "length column = length cond"
  shows "loc_assign cond v column ! i = (if cond ! i then Some v else column ! i)"
  using assms by (simp add: loc_assign_def)

lemma loc_assign_length [simp]:
  "length (loc_assign cond v column) = min (length cond) (length column)"
  by (simp add: loc_assign_def)

text \<open>
  Claim C9. In \<^verbatim>\<open>populate_entry_trend\<close> of CustomStoplossWithPSAR, on every row where both the
  strict PSAR bull-flip condition and the RSI-rebound condition hold, \<^verbatim>\<open>enter_long\<close> is 1
  and \<^verbatim>\<open>enter_tag\<close> is the tag of the later assignment, \<^verbatim>\<open>rsi_rebound_35\<close>.
\<close>

theorem last_matching_tag_wins:
  assumes "i < length dataframe" and "cond_psar_strict dataframe i" and "cond_rsi dataframe i"
  shows "populate_entry_trend dataframe ! i = (Some 1, Some ''rsi_rebound_35'')"
  using assms
  by (simp add: populate_entry_trend_def Let_def loc_assign_nth)

theorem last_matching_tag_wins_witness:
  "cond_psar_strict example_candles 1 \<and> cond_rsi example_candles 1
   \<and> populate_entry_trend example_candles ! 1 = (Some 1, Some ''rsi_rebound_35'')"
proof -
  have l: "1 < length example_candles" by (simp add: example_candles_def)
  have a: "cond_psar_strict example_candles 1"
    by (simp add: cond_psar_strict_def psar_bull_flip_def strong_up_def mom_ok_def vol_ok_def
        shift1_def example_candles_def)
  have b: "cond_rsi example_candles 1"
    by (simp add: cond_rsi_def rsi_rebound_def strong_up_def vol_ok_def shift1_def
        example_candles_def)
  from last_matching_tag_wins [OF l a b] a b show ?thesis by simp
qed

section \<open>The as-of lookups\<close>















end
